theory Spec2Isabelle
  imports Complex_Main
begin

section \<open>Modular megafauna model: shared value types\<close>

text \<open>
  The C++ type \<^verbatim>\<open>double\<close> is modelled by \<^typ>\<open>real\<close>: rounding, NaN and the
  infinities have no counterpart.  Where the source tests a value for NaN or
  for \<^verbatim>\<open>INFINITY\<close> the test is always false in the model and is mentioned in
  a comment.  An exception of the source is a value of the type \<open>error\<close>; a
  failed \<^verbatim>\<open>assert\<close> is the error \<open>Assertion_failed\<close>.
\<close>

datatype error = Invalid_argument | Logic_error | Assertion_failed

datatype ForageType = Grass | Inedible

datatype DigestionType = DT_HINDGUT | DT_RUMINANT

datatype Sex = SEX_FEMALE | SEX_MALE

text \<open>Sequencing of computations that may throw.\<close>

definition and_then :: "error + 'a \<Rightarrow> ('a \<Rightarrow> error + 'b) \<Rightarrow> error + 'b" where
  "and_then r f = (case r of Inl e \<Rightarrow> Inl e | Inr v \<Rightarrow> f v)"

section \<open>Weighted average (src/Fauna/average.cpp)\<close>

text \<open>
  \<^verbatim>\<open>Fauna::average(a, b, weight_a, weight_b)\<close>.  The second and third guard of
  the source (a weight is NaN, a weight is \<^verbatim>\<open>INFINITY\<close>) cannot fire on reals.
\<close>

definition average :: "real \<Rightarrow> real \<Rightarrow> real \<Rightarrow> real \<Rightarrow> error + real" where
  "average a b weight_a weight_b =
     (if weight_a < 0 \<or> weight_b < 0 then Inl Invalid_argument
      else if weight_a + weight_b = 0 then Inl Invalid_argument
      else Inr ((a * weight_a + b * weight_b) / (weight_a + weight_b)))"

section \<open>Net energy content (src/Fauna/net\_energy\_models.cpp)\<close>

definition ME_COEFFICIENT_GRASS :: real where
  "ME_COEFFICIENT_GRASS = 15"

definition DIGESTION_EFFICIENCY_HINDGUTS :: real where
  "DIGESTION_EFFICIENCY_HINDGUTS = 93 / 100"

text \<open>The constructor of \<^verbatim>\<open>GetNetEnergyContentDefault\<close> (modules/herbiv\_forageenergy.h).\<close>

definition digestion_efficiency :: "DigestionType \<Rightarrow> real" where
  "digestion_efficiency digestion_type =
     (if digestion_type = DT_RUMINANT then 1 else DIGESTION_EFFICIENCY_HINDGUTS)"

text \<open>
  \<^verbatim>\<open>GetNetEnergyContentDefault::get_per_forage_type\<close>.  The final
  \<^verbatim>\<open>else throw std::logic_error\<close> of the source is for a forage type that is
  neither inedible nor grass; the enumeration has no such member.
\<close>

definition get_per_forage_type :: "DigestionType \<Rightarrow> ForageType \<Rightarrow> real \<Rightarrow> error + real" where
  "get_per_forage_type digestion_type forage_type digestibility =
     (if \<not> (digestibility \<ge> 0 \<and> digestibility \<le> 1) then Inl Invalid_argument
      else if forage_type = Inedible then Inr 0
      else if forage_type = Grass then
        (let ME = digestibility * ME_COEFFICIENT_GRASS;
             e = digestion_efficiency digestion_type;
             result = ME * (19 / 1000 * ME + 503 / 1000) * e
         in if result \<ge> 0 then Inr result else Inl Assertion_failed)
      else Inl Logic_error)"


text \<open>
  A per-forage-type vector (\<^verbatim>\<open>ForageMass\<close>, \<^verbatim>\<open>ForageEnergy\<close>,
  \<^verbatim>\<open>ForageEnergyContent\<close>, \<^verbatim>\<open>Digestibility\<close>): one value for each forage
  type.  \<^verbatim>\<open>ForageMass(0.0)\<close> is the vector of zeros, and comparing a vector
  with \<^verbatim>\<open>0.0\<close> compares it with that vector.
\<close>

type_synonym ForageValues = "ForageType \<Rightarrow> real"

definition ForageMass :: "real \<Rightarrow> ForageValues" where
  "ForageMass init_value = (\<lambda>ft. init_value)"

definition forage_sum_of :: "ForageValues \<Rightarrow> real" where
  "forage_sum_of v = v Grass + v Inedible"

text \<open>
  \<^verbatim>\<open>GetNetEnergyContentInterface::operator()\<close> (modules/herbiv\_forageenergy.h):
  the net energy content of every forage type of the digestibility vector.
\<close>

definition GetNetEnergyContentDefault :: "DigestionType \<Rightarrow> ForageValues \<Rightarrow> error + ForageValues" where
  "GetNetEnergyContentDefault digestion_type digestibility =
     and_then (get_per_forage_type digestion_type Grass (digestibility Grass)) (\<lambda>ne_grass.
     and_then (get_per_forage_type digestion_type Inedible (digestibility Inedible)) (\<lambda>ne_inedible.
       Inr (\<lambda>ft. case ft of Grass \<Rightarrow> ne_grass | Inedible \<Rightarrow> ne_inedible)))"

section \<open>Running average over a period (src/Fauna/average.cpp)\<close>

record PeriodAverage =
  count :: int
  values_vec :: "real list"
  current_index :: int

definition add_value :: "real \<Rightarrow> PeriodAverage \<Rightarrow> error + PeriodAverage" where
  "add_value v p =
     (if \<not> current_index p < count p then Inl Assertion_failed
      else
        let vs = (if current_index p < int (length (values_vec p))
                  then (values_vec p)[nat (current_index p) := v]
                  else values_vec p @ [v])
        in Inr (p\<lparr>values_vec := vs, current_index := (current_index p + 1) mod count p\<rparr>))"

definition get_average :: "PeriodAverage \<Rightarrow> error + real" where
  "get_average p =
     (if \<not> int (length (values_vec p)) \<le> count p then Inl Assertion_failed
      else if values_vec p = [] then Inl Logic_error
      else Inr (sum_list (values_vec p) / real (length (values_vec p))))"

section \<open>Herbivore functional type and herbivore state\<close>

datatype MortalityFactor =
  MF_BACKGROUND | MF_LIFESPAN | MF_STARVATION_ILLIUS_OCONNOR_2000 | MF_STARVATION_THRESHOLD

datatype ReproductionModel = RM_NONE | RM_CONST_MAX | RM_ILLIUS_OCONNOR_2000 | RM_LINEAR

datatype NetEnergyModel = NE_DEFAULT

text \<open>
  The parameters of a herbivore functional type that the functions below
  read.  The class is declared in hft.h, which is not among the sources; the
  fields carry the names the sources use.  \<open>mortality_factors\<close> is the
  \<^verbatim>\<open>std::set\<close> of selected factors, given as the list of its members in the
  order the set iterates them: a list without repetition.
\<close>

record Hft =
  bodyfat_birth :: real
  bodyfat_deviation :: real
  bodyfat_max :: real
  bodymass_birth :: real
  bodymass_female :: real
  bodymass_male :: real
  breeding_season_length :: int
  breeding_season_start :: int
  digestion_type :: DigestionType
  gestation_months :: int
  lifespan :: int
  maturity_age_phys_female :: real
  maturity_age_phys_male :: real
  maturity_age_sex :: real
  minimum_density_threshold :: real
  mortality :: real
  mortality_factors :: "MortalityFactor list"
  mortality_juvenile :: real
  net_energy_model :: NetEnergyModel
  reproduction_max :: real
  reproduction_model :: ReproductionModel
  shift_body_condition_for_starvation :: bool

text \<open>
  Modelled from the spec: the state of \<^verbatim>\<open>FatmassEnergyBudget\<close> (energetics.h is
  not among the sources): fat mass, maximum fat mass, the energy needs and
  the maximum anabolism of the day.
\<close>

record FatmassEnergyBudget =
  fatmass :: real
  max_fatmass :: real
  energy_needs :: real
  max_anabolism_per_day :: real

text \<open>
  Modelled from the spec: \<^verbatim>\<open>FatmassEnergyBudget::merge(other, this_weight,
  other_weight)\<close>, the weighted mean of all state variables, each taken with
  \<open>average\<close> of src/Fauna/average.cpp.
\<close>

definition FatmassEnergyBudget_merge ::
  "FatmassEnergyBudget \<Rightarrow> FatmassEnergyBudget \<Rightarrow> real \<Rightarrow> real \<Rightarrow> error + FatmassEnergyBudget" where
  "FatmassEnergyBudget_merge this other this_weight other_weight =
     and_then (average (energy_needs this) (energy_needs other) this_weight other_weight) (\<lambda>en.
     and_then (average (max_fatmass this) (max_fatmass other) this_weight other_weight) (\<lambda>mf.
     and_then (average (fatmass this) (fatmass other) this_weight other_weight) (\<lambda>fm.
     and_then (average (max_anabolism_per_day this) (max_anabolism_per_day other)
                 this_weight other_weight) (\<lambda>ma.
       Inr \<lparr>fatmass = fm, max_fatmass = mf, energy_needs = en, max_anabolism_per_day = ma\<rparr>))))"

text \<open>
  The fields of \<^verbatim>\<open>Output::HerbivoreData\<close> that the functions below write.
  \<open>mortality_map\<close> is the member \<^verbatim>\<open>mortality\<close>, a map from mortality factor to
  rate.
\<close>

record HerbivoreData =
  eaten_forage_per_ind :: ForageValues
  eaten_forage_per_mass :: ForageValues
  eaten_nitrogen_per_ind :: real
  energy_content :: ForageValues
  energy_intake_per_ind :: ForageValues
  energy_intake_per_mass :: ForageValues
  mortality_map :: "MortalityFactor \<rightharpoonup> real"

text \<open>Modelled from the spec: the forage of a habitat, per forage type.\<close>

record HabitatForage =
  forage_mass :: ForageValues
  get_digestibility :: ForageValues
  forage_fpc :: ForageValues

text \<open>
  A herbivore cohort: the members of \<^verbatim>\<open>HerbivoreBase\<close>
  (src/Fauna/herbivore\_base.cpp) and the density \<open>ind_per_km2\<close> of
  \<^verbatim>\<open>HerbivoreCohort\<close>.  The helper classes \<^verbatim>\<open>GetForageDemands\<close> and
  \<^verbatim>\<open>NitrogenInHerbivore\<close> are not among the sources; their states are the
  type parameters \<open>'g\<close> and \<open>'n\<close>.
\<close>

record ('g, 'n) Herbivore =
  hft :: Hft
  sex :: Sex
  age_days :: int
  today :: int
  body_condition_gestation :: PeriodAverage
  nitrogen :: 'n
  energy_budget :: FatmassEnergyBudget
  current_output :: HerbivoreData
  get_forage_demands_per_ind :: 'g
  ind_per_km2 :: real

text \<open>
  The operations of classes that are not among the sources (mortality.h,
  reproduction.h, get\_forage\_demands.h, energetics.h, nitrogen.h), as
  parameters.  Each may throw.  A mortality function object is given by one
  function taking the constructor's arguments first.  A breeding season is
  the pair of its start day and its length; the constructor of a
  reproduction model returns its method \<^verbatim>\<open>get_offspring_density\<close>.
\<close>

record ('g, 'n) collaborators =
  GetBackgroundMortality :: "real \<Rightarrow> real \<Rightarrow> int \<Rightarrow> error + real"
  GetSimpleLifespanMortality :: "int \<Rightarrow> int \<Rightarrow> error + real"
  GetStarvationIlliusOConnor2000 :: "real \<Rightarrow> bool \<Rightarrow> real \<Rightarrow> error + real \<times> real"
  GetStarvationMortalityThreshold :: "real \<Rightarrow> error + real"
  BreedingSeason :: "int \<Rightarrow> int \<Rightarrow> error + int \<times> int"
  ReprIlliusOconnor2000 :: "int \<times> int \<Rightarrow> real \<Rightarrow> error + (int \<Rightarrow> real \<Rightarrow> error + real)"
  ReproductionConstMax :: "int \<times> int \<Rightarrow> real \<Rightarrow> error + (int \<Rightarrow> error + real)"
  ReproductionLinear :: "int \<times> int \<Rightarrow> real \<Rightarrow> error + (int \<Rightarrow> real \<Rightarrow> error + real)"
  is_day_initialized :: "'g \<Rightarrow> int \<Rightarrow> bool"
  init_today :: "int \<Rightarrow> HabitatForage \<Rightarrow> ForageValues \<Rightarrow> real \<Rightarrow> 'g \<Rightarrow> error + 'g"
  forage_demand_per_ind :: "real \<Rightarrow> 'g \<Rightarrow> error + ForageValues \<times> 'g"
  add_eaten :: "ForageValues \<Rightarrow> 'g \<Rightarrow> error + 'g"
  force_body_condition :: "real \<Rightarrow> FatmassEnergyBudget \<Rightarrow> error + FatmassEnergyBudget"
  metabolize_energy :: "real \<Rightarrow> FatmassEnergyBudget \<Rightarrow> error + FatmassEnergyBudget"
  ingest :: "real \<Rightarrow> 'n \<Rightarrow> error + 'n"

section \<open>Herbivore base class (src/Fauna/herbivore\_base.cpp)\<close>

text \<open>
  Modelled from the spec: the getters declared in herbivore\_base.h, which is
  not among the sources.  The age in years is the age in days over 365; the
  density of a cohort is its member \<open>ind_per_km2\<close>.
\<close>

definition get_age_years :: "('g, 'n) Herbivore \<Rightarrow> real" where
  "get_age_years h = real_of_int (age_days h) / 365"

definition get_ind_per_km2 :: "('g, 'n) Herbivore \<Rightarrow> real" where
  "get_ind_per_km2 h = ind_per_km2 h"

text \<open>
  Modelled from the spec: \<^verbatim>\<open>HerbivoreCohort::is_dead\<close>, which is not among the
  sources.  A cohort is dead iff its density is below the minimum density
  threshold of its functional type.
\<close>

definition is_dead :: "('g, 'n) Herbivore \<Rightarrow> bool" where
  "is_dead h = (ind_per_km2 h < minimum_density_threshold (hft h))"

definition get_fatmass :: "('g, 'n) Herbivore \<Rightarrow> real" where
  "get_fatmass h = fatmass (energy_budget h)"

definition get_bodymass_adult :: "('g, 'n) Herbivore \<Rightarrow> real" where
  "get_bodymass_adult h =
     (if sex h = SEX_MALE then bodymass_male (hft h) else bodymass_female (hft h))"

definition get_potential_bodymass :: "('g, 'n) Herbivore \<Rightarrow> error + real" where
  "get_potential_bodymass h =
     (let maturity_age = (if sex h = SEX_MALE then maturity_age_phys_male (hft h)
                          else maturity_age_phys_female (hft h))
      in if get_age_years h \<ge> maturity_age then Inr (get_bodymass_adult h)
         else
           let birth_leanmass = bodymass_birth (hft h) * (1 - bodyfat_birth (hft h))
           in if \<not> 1 - bodyfat_max (hft h) > 0 then Inl Assertion_failed
              else
                let birth_potmass = birth_leanmass / (1 - bodyfat_max (hft h))
                in if \<not> maturity_age > 0 then Inl Assertion_failed
                   else
                     let fraction = real_of_int (age_days h) / (maturity_age * 365);
                         difference = get_bodymass_adult h - birth_potmass
                     in Inr (birth_potmass + fraction * difference))"

definition get_lean_bodymass :: "('g, 'n) Herbivore \<Rightarrow> error + real" where
  "get_lean_bodymass h =
     and_then (get_potential_bodymass h) (\<lambda>pot. Inr (pot * (1 - bodyfat_max (hft h))))"

definition get_max_fatmass :: "('g, 'n) Herbivore \<Rightarrow> error + real" where
  "get_max_fatmass h =
     and_then (get_potential_bodymass h) (\<lambda>pot. Inr (pot * bodyfat_max (hft h)))"

definition get_bodymass :: "('g, 'n) Herbivore \<Rightarrow> error + real" where
  "get_bodymass h =
     and_then (get_lean_bodymass h) (\<lambda>lean. Inr (fatmass (energy_budget h) + lean))"

definition get_bodyfat :: "('g, 'n) Herbivore \<Rightarrow> error + real" where
  "get_bodyfat h =
     and_then (get_bodymass h) (\<lambda>bodymass. Inr (fatmass (energy_budget h) / bodymass))"

definition get_today :: "('g, 'n) Herbivore \<Rightarrow> error + int" where
  "get_today h =
     (if today h = - 1 then Inl Logic_error
      else if \<not> (today h \<ge> 0 \<and> today h < 365) then Inl Assertion_failed
      else Inr (today h))"

definition get_net_energy_content :: "('g, 'n) Herbivore \<Rightarrow> ForageValues \<Rightarrow> error + ForageValues" where
  "get_net_energy_content h digestibility =
     (if net_energy_model (hft h) = NE_DEFAULT
      then GetNetEnergyContentDefault (digestion_type (hft h)) digestibility
      else Inl Logic_error)"


text \<open>\<^verbatim>\<open>HerbivoreBase::get_todays_offspring_proportion\<close>.\<close>

definition get_todays_offspring_proportion ::
  "('g, 'n) collaborators \<Rightarrow> ('g, 'n) Herbivore \<Rightarrow> error + real" where
  "get_todays_offspring_proportion C h =
     (if sex h = SEX_MALE \<or> get_age_years h < maturity_age_sex (hft h) then Inr 0
      else
        and_then (BreedingSeason C (breeding_season_start (hft h))
                    (breeding_season_length (hft h))) (\<lambda>breeding_season.
        and_then (get_average (body_condition_gestation h)) (\<lambda>body_condition.
          if reproduction_model (hft h) = RM_ILLIUS_OCONNOR_2000 then
            and_then (ReprIlliusOconnor2000 C breeding_season (reproduction_max (hft h)))
              (\<lambda>illius_2000.
            and_then (get_today h) (\<lambda>d. illius_2000 d body_condition))
          else if reproduction_model (hft h) = RM_CONST_MAX then
            and_then (ReproductionConstMax C breeding_season (reproduction_max (hft h)))
              (\<lambda>const_max.
            and_then (get_today h) (\<lambda>d. const_max d))
          else if reproduction_model (hft h) = RM_LINEAR then
            and_then (ReproductionLinear C breeding_season (reproduction_max (hft h)))
              (\<lambda>linear.
            and_then (get_today h) (\<lambda>d. linear d body_condition))
          else if reproduction_model (hft h) = RM_NONE then Inr 0
          else Inl Logic_error)))"

text \<open>
  The older draft of the same function in modules/herbiv\_herbivore.cpp,
  which src/Fauna/herbivore\_base.cpp supersedes.  Its only model is
  \<^verbatim>\<open>RM_ILLIUS_2000\<close>, given by the parameter \<open>ReproductionIllius2000\<close> (start,
  length and maximum in, \<^verbatim>\<open>get_offspring_density\<close> out).
\<close>

definition get_todays_offspring_proportion_draft ::
  "(int \<Rightarrow> int \<Rightarrow> real \<Rightarrow> error + (int \<Rightarrow> real \<Rightarrow> error + real)) \<Rightarrow>
   ('g, 'n) Herbivore \<Rightarrow> error + real" where
  "get_todays_offspring_proportion_draft ReproductionIllius2000 h =
     (if sex h = SEX_MALE \<or> get_age_years h \<ge> maturity_age_sex (hft h) then Inr 0
      else if reproduction_model (hft h) = RM_ILLIUS_OCONNOR_2000 then
        and_then (ReproductionIllius2000 (breeding_season_start (hft h))
                    (breeding_season_length (hft h)) (reproduction_max (hft h)))
          (\<lambda>illius_2000.
        and_then (get_today h) (\<lambda>d.
        and_then (get_max_fatmass h) (\<lambda>mf.
          illius_2000 d (fatmass (energy_budget h) / mf))))
      else Inl Logic_error)"

section \<open>Herbivore cohort (modules/herbiv\_herbivore.cpp)\<close>

text \<open>
  A method that changes the object returns \<open>Inr\<close> of the new state, or
  \<open>Inl\<close> of the exception together with the state the object has when the
  exception leaves the method.
\<close>

text \<open>\<^verbatim>\<open>HerbivoreCohort::apply_mortality\<close>.\<close>

definition apply_mortality ::
  "real \<Rightarrow> ('g, 'n) Herbivore \<Rightarrow> error \<times> ('g, 'n) Herbivore + ('g, 'n) Herbivore" where
  "apply_mortality mortality_rate h =
     (if mortality_rate < 0 \<or> mortality_rate > 1 then Inl (Invalid_argument, h)
      else
        let ind_change = - mortality_rate * get_ind_per_km2 h;
            h' = h\<lparr>ind_per_km2 := max 0 (ind_per_km2 h + ind_change)\<rparr>
        in if \<not> ind_per_km2 h' \<ge> 0 then Inl (Assertion_failed, h') else Inr h')"

text \<open>
  Modelled from the spec: \<^verbatim>\<open>HerbivoreCohort::is_same_age\<close>, whose declaration
  is not among the sources.  Two cohorts are of the same age iff their
  \<open>age_days\<close> are identical.
\<close>

definition is_same_age :: "('g, 'n) Herbivore \<Rightarrow> ('g, 'n) Herbivore \<Rightarrow> bool" where
  "is_same_age this other = (age_days this = age_days other)"

text \<open>
  \<^verbatim>\<open>HerbivoreCohort::merge\<close>, for two distinct objects \<open>this\<close> and \<open>other\<close>; the
  result is the pair of their new states.
\<close>

definition merge ::
  "('g, 'n) Herbivore \<Rightarrow> ('g, 'n) Herbivore \<Rightarrow>
   error \<times> ('g, 'n) Herbivore \<times> ('g, 'n) Herbivore + ('g, 'n) Herbivore \<times> ('g, 'n) Herbivore" where
  "merge this other =
     (if \<not> is_same_age this other then Inl (Invalid_argument, this, other)
      else if sex this \<noteq> sex other then Inl (Invalid_argument, this, other)
      else if hft this \<noteq> hft other then Inl (Invalid_argument, this, other)
      else
        case FatmassEnergyBudget_merge (energy_budget this) (energy_budget other)
               (get_ind_per_km2 this) (get_ind_per_km2 other) of
          Inl e \<Rightarrow> Inl (e, this, other)
        | Inr b \<Rightarrow>
            Inr (this\<lparr>energy_budget := b, ind_per_km2 := ind_per_km2 this + ind_per_km2 other\<rparr>,
                 other\<lparr>ind_per_km2 := 0\<rparr>))"

section \<open>Mortality of the day (src/Fauna/herbivore\_base.cpp)\<close>

definition set_output_mortality ::
  "MortalityFactor \<Rightarrow> real \<Rightarrow> ('g, 'n) Herbivore \<Rightarrow> ('g, 'n) Herbivore" where
  "set_output_mortality f m h =
     h\<lparr>current_output :=
         (current_output h)\<lparr>mortality_map := (mortality_map (current_output h))(f \<mapsto> m)\<rparr>\<rparr>"

text \<open>
  The body of the loop of \<^verbatim>\<open>apply_mortality_factors_today\<close> for the factor
  \<open>itr\<close>: of the four \<^verbatim>\<open>if\<close> statements exactly the one for \<open>itr\<close> runs.
\<close>

definition mortality_factor_today ::
  "('g, 'n) collaborators \<Rightarrow> MortalityFactor \<Rightarrow> real \<times> ('g, 'n) Herbivore \<Rightarrow>
   error \<times> ('g, 'n) Herbivore + real \<times> ('g, 'n) Herbivore" where
  "mortality_factor_today C itr acc =
     (let mortality_sum = fst acc; h = snd acc in
      case itr of
        MF_BACKGROUND \<Rightarrow>
          (case GetBackgroundMortality C (mortality_juvenile (hft h)) (mortality (hft h))
                  (age_days h) of
             Inl e \<Rightarrow> Inl (e, h)
           | Inr m \<Rightarrow> Inr (mortality_sum + m, set_output_mortality MF_BACKGROUND m h))
      | MF_LIFESPAN \<Rightarrow>
          (case GetSimpleLifespanMortality C (lifespan (hft h)) (age_days h) of
             Inl e \<Rightarrow> Inl (e, h)
           | Inr m \<Rightarrow> Inr (mortality_sum + m, set_output_mortality MF_LIFESPAN m h))
      | MF_STARVATION_ILLIUS_OCONNOR_2000 \<Rightarrow>
          (case get_max_fatmass h of
             Inl e \<Rightarrow> Inl (e, h)
           | Inr mf \<Rightarrow>
               let body_condition = get_fatmass h / mf;
                   deviation = (if get_age_years h \<ge> 1 then bodyfat_deviation (hft h) else 0)
               in case GetStarvationIlliusOConnor2000 C deviation
                         (shift_body_condition_for_starvation (hft h)) body_condition of
                    Inl e \<Rightarrow> Inl (e, h)
                  | Inr (m, new_body_condition) \<Rightarrow>
                      if new_body_condition \<noteq> body_condition then
                        (case force_body_condition C new_body_condition (energy_budget h) of
                           Inl e \<Rightarrow> Inl (e, h)
                         | Inr b \<Rightarrow>
                             Inr (mortality_sum + m,
                                  set_output_mortality MF_STARVATION_ILLIUS_OCONNOR_2000 m
                                    (h\<lparr>energy_budget := b\<rparr>)))
                      else
                        Inr (mortality_sum + m,
                             set_output_mortality MF_STARVATION_ILLIUS_OCONNOR_2000 m h))
      | MF_STARVATION_THRESHOLD \<Rightarrow>
          (case get_bodyfat h of
             Inl e \<Rightarrow> Inl (e, h)
           | Inr bf \<Rightarrow>
               (case GetStarvationMortalityThreshold C bf of
                  Inl e \<Rightarrow> Inl (e, h)
                | Inr m \<Rightarrow>
                    Inr (mortality_sum + m, set_output_mortality MF_STARVATION_THRESHOLD m h))))"

fun mortality_factors_loop ::
  "('g, 'n) collaborators \<Rightarrow> MortalityFactor list \<Rightarrow> real \<times> ('g, 'n) Herbivore \<Rightarrow>
   error \<times> ('g, 'n) Herbivore + real \<times> ('g, 'n) Herbivore" where
  "mortality_factors_loop C [] acc = Inr acc"
| "mortality_factors_loop C (itr # rest) acc =
     (case mortality_factor_today C itr acc of
        Inl x \<Rightarrow> Inl x
      | Inr acc' \<Rightarrow> mortality_factors_loop C rest acc')"

text \<open>
  \<^verbatim>\<open>apply_mortality_factors_today\<close> up to its last statement: the loop from
  the sum \<open>0\<close>, then \<^verbatim>\<open>mortality_sum = std::min(1.0, mortality_sum)\<close>.  The
  result is the argument of the call of \<^verbatim>\<open>apply_mortality\<close> and the state of
  the herbivore before that call.
\<close>

definition todays_mortality_sum ::
  "('g, 'n) collaborators \<Rightarrow> ('g, 'n) Herbivore \<Rightarrow>
   error \<times> ('g, 'n) Herbivore + real \<times> ('g, 'n) Herbivore" where
  "todays_mortality_sum C h =
     (case mortality_factors_loop C (mortality_factors (hft h)) (0, h) of
        Inl x \<Rightarrow> Inl x
      | Inr acc \<Rightarrow> Inr (min 1 (fst acc), snd acc))"

definition apply_mortality_factors_today ::
  "('g, 'n) collaborators \<Rightarrow> ('g, 'n) Herbivore \<Rightarrow>
   error \<times> ('g, 'n) Herbivore + ('g, 'n) Herbivore" where
  "apply_mortality_factors_today C h =
     (case todays_mortality_sum C h of
        Inl x \<Rightarrow> Inl x
      | Inr acc \<Rightarrow> apply_mortality (fst acc) (snd acc))"

text \<open>The rate that today's output records for a factor (\<open>0\<close> if none).\<close>

definition output_mortality :: "('g, 'n) Herbivore \<Rightarrow> MortalityFactor \<Rightarrow> real" where
  "output_mortality h f =
     (case mortality_map (current_output h) f of None \<Rightarrow> 0 | Some m \<Rightarrow> m)"


text \<open>
  The rate that the mortality model of a factor returns for a herbivore: the
  call of the model as the loop above writes it, without the bookkeeping of
  the loop.  It reads the functional type, the sex, the age and the energy
  budget of the herbivore only.
\<close>

definition mortality_rate_of ::
  "('g, 'n) collaborators \<Rightarrow> MortalityFactor \<Rightarrow> ('g, 'n) Herbivore \<Rightarrow> error + real" where
  "mortality_rate_of C f h =
     (case f of
        MF_BACKGROUND \<Rightarrow>
          GetBackgroundMortality C (mortality_juvenile (hft h)) (mortality (hft h)) (age_days h)
      | MF_LIFESPAN \<Rightarrow> GetSimpleLifespanMortality C (lifespan (hft h)) (age_days h)
      | MF_STARVATION_ILLIUS_OCONNOR_2000 \<Rightarrow>
          and_then (get_max_fatmass h) (\<lambda>mf.
          and_then (GetStarvationIlliusOConnor2000 C
                      (if get_age_years h \<ge> 1 then bodyfat_deviation (hft h) else 0)
                      (shift_body_condition_for_starvation (hft h)) (get_fatmass h / mf))
            (\<lambda>r. Inr (fst r)))
      | MF_STARVATION_THRESHOLD \<Rightarrow>
          and_then (get_bodyfat h) (GetStarvationMortalityThreshold C))"

text \<open>
  The herbivore that the model of the factor \<open>f\<close> sees when the loop runs over
  the factors \<open>fs\<close> from the herbivore \<open>h\<close> and ends with \<open>h'\<close>.  Only the
  starvation model of Illius and O'Connor changes the energy budget, so up to
  today's output, which no model reads, it is \<open>h'\<close> for a factor after that
  model and \<open>h\<close> for every other factor.
\<close>

definition herbivore_when_factor_runs ::
  "MortalityFactor list \<Rightarrow> ('g, 'n) Herbivore \<Rightarrow> ('g, 'n) Herbivore \<Rightarrow> MortalityFactor \<Rightarrow>
   ('g, 'n) Herbivore" where
  "herbivore_when_factor_runs fs h h' f =
     (if MF_STARVATION_ILLIUS_OCONNOR_2000 \<in> set (takeWhile (\<lambda>g. g \<noteq> f) fs) then h' else h)"

text \<open>The value of a rate that was returned (\<open>0\<close> for an exception).\<close>

definition rate_value :: "error + real \<Rightarrow> real" where
  "rate_value x = (case x of Inl e \<Rightarrow> 0 | Inr r \<Rightarrow> r)"

section \<open>Feeding and forage demands (src/Fauna/herbivore\_base.cpp)\<close>

text \<open>
  \<^verbatim>\<open>HerbivoreBase::eat\<close>.  The handler around \<^verbatim>\<open>add_eaten\<close> catches
  \<^verbatim>\<open>std::logic_error\<close>, the base class of \<^verbatim>\<open>std::invalid_argument\<close> too, and
  throws a \<^verbatim>\<open>std::logic_error\<close> again.
\<close>

definition eat ::
  "('g, 'n) collaborators \<Rightarrow> ForageValues \<Rightarrow> ForageValues \<Rightarrow> ForageValues \<Rightarrow>
   ('g, 'n) Herbivore \<Rightarrow> error \<times> ('g, 'n) Herbivore + ('g, 'n) Herbivore" where
  "eat C kg_per_km2 digestibility N_kg_per_km2 h =
     (if get_ind_per_km2 h = 0 \<and> kg_per_km2 = ForageMass 0 then Inl (Logic_error, h)
      else if \<not> get_ind_per_km2 h \<noteq> 0 then Inl (Assertion_failed, h)
      else
        let kg_per_ind = (\<lambda>ft. kg_per_km2 ft / get_ind_per_km2 h);
            N_kg_per_ind = (\<lambda>ft. N_kg_per_km2 ft / get_ind_per_km2 h)
        in case get_net_energy_content h digestibility of
             Inl e \<Rightarrow> Inl (e, h)
           | Inr net_energy_content \<Rightarrow>
        let mj_per_ind = (\<lambda>ft. net_energy_content ft * kg_per_ind ft)
        in case add_eaten C kg_per_ind (get_forage_demands_per_ind h) of
             Inl e \<Rightarrow> Inl (if e = Assertion_failed then e else Logic_error, h)
           | Inr g \<Rightarrow>
        let h1 = h\<lparr>get_forage_demands_per_ind := g\<rparr>
        in case metabolize_energy C (forage_sum_of mj_per_ind) (energy_budget h1) of
             Inl e \<Rightarrow> Inl (e, h1)
           | Inr b \<Rightarrow>
        let h2 = h1\<lparr>energy_budget := b\<rparr>;
            out = current_output h2;
            h3 = h2\<lparr>current_output := out\<lparr>eaten_forage_per_ind :=
                      (\<lambda>ft. eaten_forage_per_ind out ft + kg_per_ind ft)\<rparr>\<rparr>
        in case get_bodymass h3 of
             Inl e \<Rightarrow> Inl (e, h3)
           | Inr bodymass \<Rightarrow>
        let out3 = current_output h3;
            h4 = h3\<lparr>current_output := out3
                   \<lparr>eaten_forage_per_mass :=
                      (\<lambda>ft. eaten_forage_per_mass out3 ft + kg_per_ind ft / bodymass),
                    energy_intake_per_ind :=
                      (\<lambda>ft. energy_intake_per_ind out3 ft + mj_per_ind ft),
                    energy_intake_per_mass :=
                      (\<lambda>ft. energy_intake_per_mass out3 ft + mj_per_ind ft / bodymass),
                    eaten_nitrogen_per_ind :=
                      eaten_nitrogen_per_ind out3 + forage_sum_of N_kg_per_ind\<rparr>\<rparr>
        in case ingest C (forage_sum_of N_kg_per_ind * get_ind_per_km2 h4) (nitrogen h4) of
             Inl e \<Rightarrow> Inl (e, h4)
           | Inr n \<Rightarrow> Inr (h4\<lparr>nitrogen := n\<rparr>))"

text \<open>
  \<^verbatim>\<open>HerbivoreBase::get_forage_demands\<close>: the demand per area and the new
  state of the herbivore.
\<close>

definition init_forage_demands_today ::
  "('g, 'n) collaborators \<Rightarrow> HabitatForage \<Rightarrow> int \<Rightarrow> ('g, 'n) Herbivore \<Rightarrow>
   error \<times> ('g, 'n) Herbivore + ('g, 'n) Herbivore" where
  "init_forage_demands_today C available_forage d h =
     (case get_net_energy_content h (get_digestibility available_forage) of
        Inl e \<Rightarrow> Inl (e, h)
      | Inr net_energy_content \<Rightarrow>
          (case get_bodymass h of
             Inl e \<Rightarrow> Inl (e, h)
           | Inr bodymass \<Rightarrow>
               (case init_today C d available_forage net_energy_content bodymass
                       (get_forage_demands_per_ind h) of
                  Inl e \<Rightarrow> Inl (e, h)
                | Inr g \<Rightarrow>
                    Inr (h\<lparr>get_forage_demands_per_ind := g,
                           current_output :=
                             (current_output h)\<lparr>energy_content := net_energy_content\<rparr>\<rparr>))))"

definition get_forage_demands ::
  "('g, 'n) collaborators \<Rightarrow> HabitatForage \<Rightarrow> ('g, 'n) Herbivore \<Rightarrow>
   error \<times> ('g, 'n) Herbivore + ForageValues \<times> ('g, 'n) Herbivore" where
  "get_forage_demands C available_forage h =
     (if is_dead h then Inr (ForageMass 0, h)
      else
        case get_today h of
          Inl e \<Rightarrow> Inl (e, h)
        | Inr d \<Rightarrow>
            (case (if \<not> is_day_initialized C (get_forage_demands_per_ind h) d
                   then init_forage_demands_today C available_forage d h
                   else Inr h) of
               Inl x \<Rightarrow> Inl x
             | Inr h1 \<Rightarrow>
                 let total_energy_demands =
                       energy_needs (energy_budget h1) + max_anabolism_per_day (energy_budget h1)
                 in case forage_demand_per_ind C total_energy_demands
                           (get_forage_demands_per_ind h1) of
                      Inl e \<Rightarrow> Inl (e, h1)
                    | Inr r \<Rightarrow>
                        Inr (\<lambda>ft. fst r ft * get_ind_per_km2 h1,
                             h1\<lparr>get_forage_demands_per_ind := snd r\<rparr>)))"

section \<open>The world and its establishment cycle (src/Fauna/world.cpp)\<close>

record Parameters =
  herbivore_establish_interval :: int

text \<open>
  Modelled from the spec: a simulation unit (simulation\_unit.h is not among
  the sources) tracks whether the initial establishment has been performed;
  the rest of its state, habitat and populations, is the type parameter.
\<close>

record 'u SimulationUnit =
  is_initial_establishment_done :: bool
  unit_state :: 'u

record 'u World =
  params :: Parameters
  days_since_last_establishment :: int
  sim_units :: "'u SimulationUnit list"

text \<open>The constructor, for the parameters read from the instruction file.\<close>

definition World_new :: "Parameters \<Rightarrow> 'u World" where
  "World_new p =
     \<lparr>params = p, days_since_last_establishment = herbivore_establish_interval p,
      sim_units = []\<rparr>"

definition create_simulation_unit :: "'u \<Rightarrow> 'u World \<Rightarrow> 'u World" where
  "create_simulation_unit u W =
     W\<lparr>sim_units := sim_units W @ [\<lparr>is_initial_establishment_done = False, unit_state = u\<rparr>]\<rparr>"

text \<open>
  The loop of \<^verbatim>\<open>World::simulate_day\<close> over the simulation units, with the
  member \<open>days_since_last_establishment\<close> as the last argument.  The function
  object \<^verbatim>\<open>SimulateDay\<close> is not among the sources: the parameter \<open>SD\<close> takes
  the day, \<^verbatim>\<open>do_herbivores\<close>, \<^verbatim>\<open>establish_if_needed\<close> and the unit, and returns
  the unit as the call leaves it.  The loop variable of the source is a copy
  of the unit (\<^verbatim>\<open>for (auto sim_unit : sim_units)\<close>); what of the call stays
  with the unit of the world is decided by \<^verbatim>\<open>SimulationUnit\<close>, so \<open>SD\<close> returns
  the unit of the world after the call.  The counter does not depend on it.
\<close>

fun simulate_units ::
  "(int \<Rightarrow> bool \<Rightarrow> bool \<Rightarrow> 'u SimulationUnit \<Rightarrow> error + 'u SimulationUnit) \<Rightarrow>
   Parameters \<Rightarrow> int \<Rightarrow> bool \<Rightarrow> 'u SimulationUnit list \<Rightarrow> int \<Rightarrow>
   error + 'u SimulationUnit list \<times> int" where
  "simulate_units SD p day_of_year do_herbivores [] days = Inr ([], days)"
| "simulate_units SD p day_of_year do_herbivores (sim_unit # rest) days =
     (let establish0 = \<not> is_initial_establishment_done sim_unit;
          interval_passed = (days = herbivore_establish_interval p
                             \<and> herbivore_establish_interval p > 0);
          establish_if_needed = (if interval_passed then True else establish0);
          days1 = (if interval_passed then 0 else days);
          days2 = days1 + 1
      in case SD day_of_year do_herbivores establish_if_needed sim_unit of
           Inl e \<Rightarrow> Inl e
         | Inr sim_unit' \<Rightarrow>
             (case simulate_units SD p day_of_year do_herbivores rest days2 of
                Inl e \<Rightarrow> Inl e
              | Inr r \<Rightarrow> Inr (sim_unit' # fst r, snd r)))"

definition simulate_day ::
  "(int \<Rightarrow> bool \<Rightarrow> bool \<Rightarrow> 'u SimulationUnit \<Rightarrow> error + 'u SimulationUnit) \<Rightarrow>
   int \<Rightarrow> bool \<Rightarrow> 'u World \<Rightarrow> error + 'u World" where
  "simulate_day SD day_of_year do_herbivores W =
     (if day_of_year < 0 \<or> day_of_year \<ge> 365 then Inl Invalid_argument
      else
        case simulate_units SD (params W) day_of_year do_herbivores (sim_units W)
               (days_since_last_establishment W) of
          Inl e \<Rightarrow> Inl e
        | Inr r \<Rightarrow> Inr (W\<lparr>sim_units := fst r, days_since_last_establishment := snd r\<rparr>))"

text \<open>Consecutive calls of \<^verbatim>\<open>simulate_day\<close>, one for each day of the list.\<close>

fun simulate_days ::
  "(int \<Rightarrow> bool \<Rightarrow> bool \<Rightarrow> 'u SimulationUnit \<Rightarrow> error + 'u SimulationUnit) \<Rightarrow>
   int list \<Rightarrow> 'u World \<Rightarrow> error + 'u World" where
  "simulate_days SD [] W = Inr W"
| "simulate_days SD (d # ds) W =
     (case simulate_day SD d True W of Inl e \<Rightarrow> Inl e | Inr W' \<Rightarrow> simulate_days SD ds W')"

section \<open>Forage distribution (framework/herbiv\_framework.cpp)\<close>

text \<open>
  \<^verbatim>\<open>DistributeForageEqually::operator()\<close>.  A population is the list of its
  herbivores; the forage distribution maps a herbivore to its portion.  The
  inner loop visits every herbivore and its body is empty; \<^verbatim>\<open>forage_sum\<close>
  is passed by value.  The result is the distribution and the sum as the
  caller has them after the call.
\<close>

fun distribute_herbivores ::
  "HabitatForage \<Rightarrow> 'h list \<Rightarrow> ('h \<rightharpoonup> ForageValues) \<Rightarrow> ('h \<rightharpoonup> ForageValues)" where
  "distribute_herbivores available [] forage_distribution = forage_distribution"
| "distribute_herbivores available (herbiv # rest) forage_distribution =
     distribute_herbivores available rest forage_distribution"

fun distribute_populations ::
  "HabitatForage \<Rightarrow> 'h list list \<Rightarrow> ('h \<rightharpoonup> ForageValues) \<Rightarrow> ('h \<rightharpoonup> ForageValues)" where
  "distribute_populations available [] forage_distribution = forage_distribution"
| "distribute_populations available (pop # rest) forage_distribution =
     distribute_populations available rest
       (distribute_herbivores available pop forage_distribution)"

definition DistributeForageEqually ::
  "HabitatForage \<Rightarrow> 'h list list \<Rightarrow> ('h \<rightharpoonup> ForageValues) \<Rightarrow> ForageValues \<Rightarrow>
   ('h \<rightharpoonup> ForageValues) \<times> ForageValues" where
  "DistributeForageEqually available populations forage_distribution forage_sum =
     (distribute_populations available populations forage_distribution, forage_sum)"


text \<open>
  Modelled from the spec: the algorithm \<open>Equally\<close> in the words of the
  specification, which the function above does not implement, for comparison
  with it.  For each forage type, with \<open>D\<close> the sum of the demands and \<open>A\<close>
  the available mass, a herbivore gets its full demand if \<open>D \<le> A\<close> and its
  demand scaled by \<open>A / D\<close> otherwise.
\<close>

definition DistributeForageEqually_spec :: "ForageValues \<Rightarrow> ForageValues list \<Rightarrow> ForageValues list" where
  "DistributeForageEqually_spec available demands =
     map (\<lambda>demand ft.
            let D = (\<Sum>d\<leftarrow>demands. d ft); A = available ft
            in if D \<le> A then demand ft else demand ft * (A / D))
       demands"

section \<open>Concrete data for the examples\<close>

definition example_hft :: Hft where
  "example_hft =
     \<lparr>bodyfat_birth = 1 / 10, bodyfat_deviation = 1 / 8, bodyfat_max = 3 / 10,
      bodymass_birth = 5, bodymass_female = 50, bodymass_male = 70,
      breeding_season_length = 30, breeding_season_start = 120,
      digestion_type = DT_RUMINANT, gestation_months = 9, lifespan = 16,
      maturity_age_phys_female = 2, maturity_age_phys_male = 3, maturity_age_sex = 2,
      minimum_density_threshold = 1 / 1000, mortality = 1 / 10,
      mortality_factors = [MF_BACKGROUND, MF_LIFESPAN, MF_STARVATION_ILLIUS_OCONNOR_2000,
                           MF_STARVATION_THRESHOLD],
      mortality_juvenile = 3 / 10, net_energy_model = NE_DEFAULT,
      reproduction_max = 1, reproduction_model = RM_CONST_MAX,
      shift_body_condition_for_starvation = True\<rparr>"

definition example_output :: HerbivoreData where
  "example_output =
     \<lparr>eaten_forage_per_ind = ForageMass 0, eaten_forage_per_mass = ForageMass 0,
      eaten_nitrogen_per_ind = 0, energy_content = ForageMass 0,
      energy_intake_per_ind = ForageMass 0, energy_intake_per_mass = ForageMass 0,
      mortality_map = Map.empty\<rparr>"

text \<open>A female cohort of 1000 days with two individuals per square kilometre.\<close>

definition example_cohort :: "(unit, unit) Herbivore" where
  "example_cohort =
     \<lparr>hft = example_hft, sex = SEX_FEMALE, age_days = 1000, today = 130,
      body_condition_gestation = \<lparr>count = 270, values_vec = [1 / 2, 1], current_index = 2\<rparr>,
      nitrogen = (),
      energy_budget = \<lparr>fatmass = 6, max_fatmass = 15, energy_needs = 10,
                       max_anabolism_per_day = 4\<rparr>,
      current_output = example_output, get_forage_demands_per_ind = (),
      ind_per_km2 = 2\<rparr>"

text \<open>
  Collaborators with fixed answers: the four mortality rates are \<open>0.3\<close>,
  \<open>0.4\<close>, \<open>0.2\<close> and \<open>0.5\<close>, and every reproduction model gives the
  proportion \<open>0.01\<close>.
\<close>

definition example_collaborators :: "(unit, unit) collaborators" where
  "example_collaborators =
     \<lparr>GetBackgroundMortality = (\<lambda>juvenile adult age. Inr (3 / 10)),
      GetSimpleLifespanMortality = (\<lambda>span age. Inr (4 / 10)),
      GetStarvationIlliusOConnor2000 = (\<lambda>deviation shift bc. Inr (2 / 10, bc)),
      GetStarvationMortalityThreshold = (\<lambda>bodyfat. Inr (5 / 10)),
      BreedingSeason = (\<lambda>start len. Inr (start, len)),
      ReprIlliusOconnor2000 = (\<lambda>season rmax. Inr (\<lambda>day bc. Inr (1 / 100))),
      ReproductionConstMax = (\<lambda>season rmax. Inr (\<lambda>day. Inr (1 / 100))),
      ReproductionLinear = (\<lambda>season rmax. Inr (\<lambda>day bc. Inr (1 / 100))),
      is_day_initialized = (\<lambda>g day. False),
      init_today = (\<lambda>day forage nec bodymass g. Inr g),
      forage_demand_per_ind = (\<lambda>energy g. Inr (ForageMass 1, g)),
      add_eaten = (\<lambda>kg g. Inr g),
      force_body_condition = (\<lambda>bc b. Inr (b\<lparr>fatmass := bc * max_fatmass b\<rparr>)),
      metabolize_energy = (\<lambda>mj b. Inr b),
      ingest = (\<lambda>kg n. Inr n)\<rparr>"

text \<open>The example cohort with the four rates written to today's output.\<close>

definition example_cohort_rates_recorded :: "(unit, unit) Herbivore" where
  "example_cohort_rates_recorded =
     set_output_mortality MF_STARVATION_THRESHOLD (5 / 10)
       (set_output_mortality MF_STARVATION_ILLIUS_OCONNOR_2000 (2 / 10)
         (set_output_mortality MF_LIFESPAN (4 / 10)
           (set_output_mortality MF_BACKGROUND (3 / 10) example_cohort)))"

text \<open>
  Collaborators whose mortality models read their arguments: the background
  rate is the juvenile rate in the first year and the adult rate later, the
  lifespan rate is \<open>1\<close> from the lifespan on, the starvation model of Illius
  and O'Connor gives \<open>0.2\<close> and raises the body condition by \<open>0.1\<close>, and the
  threshold model gives \<open>1\<close> below a body fat of \<open>0.15\<close> and \<open>0.25\<close> above.
\<close>

definition example_collaborators_graded :: "(unit, unit) collaborators" where
  "example_collaborators_graded =
     example_collaborators
       \<lparr>GetBackgroundMortality := (\<lambda>juvenile adult age. Inr (if age < 365 then juvenile else adult)),
        GetSimpleLifespanMortality := (\<lambda>span age. Inr (if age \<ge> span * 365 then 1 else 0)),
        GetStarvationIlliusOConnor2000 :=
          (\<lambda>deviation shift bc. Inr (1 / 5, if shift then bc + 1 / 10 else bc)),
        GetStarvationMortalityThreshold := (\<lambda>bodyfat. Inr (if bodyfat < 3 / 20 then 1 else 1 / 4))\<rparr>"

text \<open>The example cohort after the loop with these collaborators.\<close>

definition example_cohort_graded_after :: "(unit, unit) Herbivore" where
  "example_cohort_graded_after =
     set_output_mortality MF_STARVATION_THRESHOLD (1 / 4)
       (set_output_mortality MF_STARVATION_ILLIUS_OCONNOR_2000 (1 / 5)
         ((set_output_mortality MF_LIFESPAN 0
            (set_output_mortality MF_BACKGROUND (1 / 10) example_cohort))
          \<lparr>energy_budget := (energy_budget example_cohort)\<lparr>fatmass := 15 / 2\<rparr>\<rparr>))"

text \<open>A cohort that differs from the example cohort in its energy budget.\<close>

definition example_cohort_lean :: "(unit, unit) Herbivore" where
  "example_cohort_lean =
     example_cohort\<lparr>energy_budget := \<lparr>fatmass = 10, max_fatmass = 15, energy_needs = 2,
                                      max_anabolism_per_day = 4\<rparr>\<rparr>"

text \<open>
  A world with an establishment interval of 10 days and two simulation
  units.  The state of a unit is the list of the calls of \<^verbatim>\<open>SimulateDay\<close> on
  it: the day and the value of \<^verbatim>\<open>establish_if_needed\<close>.  A call with
  \<^verbatim>\<open>establish_if_needed\<close> set performs the initial establishment, and the
  unit of the world keeps the flag.
\<close>

definition example_SimulateDay ::
  "int \<Rightarrow> bool \<Rightarrow> bool \<Rightarrow> (int \<times> bool) list SimulationUnit \<Rightarrow>
   error + (int \<times> bool) list SimulationUnit" where
  "example_SimulateDay day_of_year do_herbivores establish_if_needed u =
     Inr (u\<lparr>is_initial_establishment_done :=
               is_initial_establishment_done u \<or> establish_if_needed,
             unit_state := unit_state u @ [(day_of_year, establish_if_needed)]\<rparr>)"

definition example_world :: "(int \<times> bool) list World" where
  "example_world =
     create_simulation_unit [] (create_simulation_unit []
       (World_new \<lparr>herbivore_establish_interval = 10\<rparr>))"

section \<open>Properties of the value types\<close>

text \<open>
  C5.  For a digestibility \<open>d\<close> in \<open>[0,1]\<close> the default net energy content of
  grass is \<open>ME * (0.019 * ME + 0.503) * e\<close> with \<open>ME = d * 15\<close>, where \<open>e\<close> is
  \<open>1\<close> for ruminants and \<open>0.93\<close> for hindgut fermenters; for the inedible
  forage type it is \<open>0\<close>; a digestibility outside \<open>[0,1]\<close> is rejected with an
  invalid-argument error, whatever the forage type.
\<close>

theorem net_energy_content_default:
  "(0 \<le> d \<and> d \<le> 1 \<longrightarrow>
      get_per_forage_type DT_RUMINANT Grass d
        = Inr ((d * 15) * (19 / 1000 * (d * 15) + 503 / 1000) * 1) \<and>
      get_per_forage_type DT_HINDGUT Grass d
        = Inr ((d * 15) * (19 / 1000 * (d * 15) + 503 / 1000) * (93 / 100)) \<and>
      get_per_forage_type dt Inedible d = Inr 0) \<and>
   (d < 0 \<or> 1 < d \<longrightarrow> get_per_forage_type dt ft d = Inl Invalid_argument)"
  by (auto simp: get_per_forage_type_def digestion_efficiency_def
      ME_COEFFICIENT_GRASS_def DIGESTION_EFFICIENCY_HINDGUTS_def Let_def)

theorem net_energy_content_default_witness:
  "get_per_forage_type DT_RUMINANT Grass (1 / 2) = Inr (3873 / 800) \<and>
   get_per_forage_type DT_HINDGUT Grass (1 / 2) = Inr (360189 / 80000) \<and>
   get_per_forage_type DT_HINDGUT Inedible (1 / 2) = Inr 0 \<and>
   get_per_forage_type DT_RUMINANT Grass (3 / 2) = Inl Invalid_argument"
  using net_energy_content_default [of "1 / 2" DT_HINDGUT Grass]
    net_energy_content_default [of "3 / 2" DT_RUMINANT Grass]
  by simp

text \<open>
  C8.  The weighted average is commutative and associative over the reals:
  \<open>average a b w\<^sub>a w\<^sub>b = average b a w\<^sub>b w\<^sub>a\<close>, and for non-negative weights
  with pairwise positive sums, averaging \<open>a\<close> with \<open>b\<close> and the result with
  \<open>c\<close> gives the same value as averaging \<open>a\<close> with the average of \<open>b\<close> and
  \<open>c\<close>; neither side throws, and the value is the weighted mean of the three.
\<close>

theorem average_commutative_associative:
  "average a b w_a w_b = average b a w_b w_a \<and>
   (0 \<le> w_a \<and> 0 \<le> w_b \<and> 0 \<le> w_c \<and> 0 < w_a + w_b \<and> 0 < w_b + w_c \<and> 0 < w_a + w_c \<longrightarrow>
      and_then (average a b w_a w_b) (\<lambda>ab. average ab c (w_a + w_b) w_c)
        = and_then (average b c w_b w_c) (\<lambda>bc. average a bc w_a (w_b + w_c)) \<and>
      and_then (average a b w_a w_b) (\<lambda>ab. average ab c (w_a + w_b) w_c)
        = Inr ((a * w_a + b * w_b + c * w_c) / (w_a + w_b + w_c)))"
proof -
  have comm: "average a b w_a w_b = average b a w_b w_a"
    by (auto simp: average_def add.commute)
  have assoc: "and_then (average a b w_a w_b) (\<lambda>ab. average ab c (w_a + w_b) w_c)
        = Inr ((a * w_a + b * w_b + c * w_c) / (w_a + w_b + w_c)) \<and>
      and_then (average b c w_b w_c) (\<lambda>bc. average a bc w_a (w_b + w_c))
        = Inr ((a * w_a + b * w_b + c * w_c) / (w_a + w_b + w_c))"
    if w: "0 \<le> w_a" "0 \<le> w_b" "0 \<le> w_c" "0 < w_a + w_b" "0 < w_b + w_c"
  proof -
    have pos: "w_a + w_b \<noteq> 0" "w_b + w_c \<noteq> 0" "w_a + w_b + w_c \<noteq> 0" "w_a + (w_b + w_c) \<noteq> 0"
      using w by linarith+
    have l: "average a b w_a w_b = Inr ((a * w_a + b * w_b) / (w_a + w_b))"
      using w pos by (simp add: average_def)
    have r: "average b c w_b w_c = Inr ((b * w_b + c * w_c) / (w_b + w_c))"
      using w pos by (simp add: average_def)
    have l2: "average ((a * w_a + b * w_b) / (w_a + w_b)) c (w_a + w_b) w_c
        = Inr ((a * w_a + b * w_b + c * w_c) / (w_a + w_b + w_c))"
      using w pos by (simp add: average_def)
    have r2: "average a ((b * w_b + c * w_c) / (w_b + w_c)) w_a (w_b + w_c)
        = Inr ((a * w_a + b * w_b + c * w_c) / (w_a + w_b + w_c))"
      using w pos by (simp add: average_def add.assoc)
    show ?thesis
      by (simp add: and_then_def l r l2 r2)
  qed
  show ?thesis
    using comm assoc by simp
qed

theorem average_commutative_associative_witness:
  "average 2 6 1 3 = average 6 2 3 1 \<and>
   and_then (average 2 6 1 3) (\<lambda>ab. average ab 10 (1 + 3) 4)
     = and_then (average 6 10 3 4) (\<lambda>bc. average 2 bc 1 (3 + 4)) \<and>
   and_then (average 2 6 1 3) (\<lambda>ab. average ab 10 (1 + 3) 4) = Inr (15 / 2)"
proof -
  have w: "(0::real) \<le> 1 \<and> (0::real) \<le> 3 \<and> (0::real) \<le> 4 \<and> (0::real) < 1 + 3 \<and>
      (0::real) < 3 + 4 \<and> (0::real) < 1 + 4"
    by simp
  have v: "((2::real) * 1 + 6 * 3 + 10 * 4) / (1 + 3 + 4) = 15 / 2"
    by simp
  from average_commutative_associative [of 2 6 1 3 4 10] w
  have "average 2 6 1 3 = average 6 2 3 1 \<and>
      and_then (average 2 6 1 3) (\<lambda>ab. average ab 10 (1 + 3) 4)
        = and_then (average 6 10 3 4) (\<lambda>bc. average 2 bc 1 (3 + 4)) \<and>
      and_then (average 2 6 1 3) (\<lambda>ab. average ab 10 (1 + 3) 4)
        = Inr (((2::real) * 1 + 6 * 3 + 10 * 4) / (1 + 3 + 4))"
    by blast
  then show ?thesis
    unfolding v .
qed

text \<open>
  C3.  For a cohort of density \<open>d \<ge> 0\<close> and a mortality \<open>m\<close> in \<open>[0,1]\<close>,
  \<open>apply_mortality m\<close> sets the density to \<open>max 0 (d - m * d)\<close>, which is
  \<open>(1 - m) * d\<close> clamped below at zero and is not negative; for \<open>m\<close> outside
  \<open>[0,1]\<close> it throws an invalid-argument error and the cohort is unchanged.
\<close>

theorem cohort_apply_mortality:
  "(0 \<le> ind_per_km2 h \<and> 0 \<le> m \<and> m \<le> 1 \<longrightarrow>
      apply_mortality m h
        = Inr (h\<lparr>ind_per_km2 := max 0 (ind_per_km2 h - m * ind_per_km2 h)\<rparr>) \<and>
      max 0 (ind_per_km2 h - m * ind_per_km2 h) = max 0 ((1 - m) * ind_per_km2 h) \<and>
      max 0 (ind_per_km2 h - m * ind_per_km2 h) = (1 - m) * ind_per_km2 h \<and>
      0 \<le> max 0 (ind_per_km2 h - m * ind_per_km2 h)) \<and>
   (m < 0 \<or> 1 < m \<longrightarrow> apply_mortality m h = Inl (Invalid_argument, h))"
proof -
  have nonneg: "0 \<le> (1 - m) * ind_per_km2 h" if "0 \<le> ind_per_km2 h" "m \<le> 1"
    using that by simp
  have eq: "ind_per_km2 h - m * ind_per_km2 h = (1 - m) * ind_per_km2 h"
    by (simp add: algebra_simps)
  show ?thesis
    using nonneg
    by (auto simp: apply_mortality_def get_ind_per_km2_def Let_def eq)
qed

theorem cohort_apply_mortality_witness:
  "apply_mortality (1 / 4) example_cohort = Inr (example_cohort\<lparr>ind_per_km2 := 3 / 2\<rparr>) \<and>
   apply_mortality (3 / 2) example_cohort = Inl (Invalid_argument, example_cohort)"
proof -
  have d: "ind_per_km2 example_cohort = 2"
    by (simp add: example_cohort_def)
  show ?thesis
    using cohort_apply_mortality [of example_cohort "1 / 4"]
      cohort_apply_mortality [of example_cohort "3 / 2"]
    by (simp add: d)
qed


section \<open>Properties of the herbivore\<close>

lemma ForageMass_eq_zero_iff: "v = ForageMass 0 \<longleftrightarrow> v Grass = 0 \<and> v Inedible = 0"
proof
  assume "v = ForageMass 0"
  then show "v Grass = 0 \<and> v Inedible = 0"
    by (simp add: ForageMass_def)
next
  assume z: "v Grass = 0 \<and> v Inedible = 0"
  have "v ft = ForageMass 0 ft" for ft
    using z by (cases ft) (simp_all add: ForageMass_def)
  then show "v = ForageMass 0"
    by (simp add: fun_eq_iff)
qed

text \<open>
  C1.  \<open>get_todays_offspring_proportion\<close> returns \<open>0\<close> whenever the herbivore
  is male or its age in years is below \<open>maturity_age_sex\<close> of its functional
  type; so a positive proportion is returned only for a female whose age in
  years is at least \<open>maturity_age_sex\<close>.
\<close>

theorem offspring_only_from_mature_females:
  "(sex h = SEX_MALE \<or> get_age_years h < maturity_age_sex (hft h) \<longrightarrow>
      get_todays_offspring_proportion C h = Inr 0) \<and>
   (get_todays_offspring_proportion C h = Inr p \<and> 0 < p \<longrightarrow>
      sex h = SEX_FEMALE \<and> maturity_age_sex (hft h) \<le> get_age_years h)"
proof -
  have zero: "get_todays_offspring_proportion C h = Inr 0"
    if "sex h = SEX_MALE \<or> get_age_years h < maturity_age_sex (hft h)"
    using that by (simp add: get_todays_offspring_proportion_def)
  have mature: "sex h = SEX_FEMALE \<and> maturity_age_sex (hft h) \<le> get_age_years h"
    if r: "get_todays_offspring_proportion C h = Inr p" and p: "0 < p"
  proof (rule ccontr)
    assume "\<not> (sex h = SEX_FEMALE \<and> maturity_age_sex (hft h) \<le> get_age_years h)"
    then have "sex h = SEX_MALE \<or> get_age_years h < maturity_age_sex (hft h)"
      by (cases "sex h") auto
    then have "get_todays_offspring_proportion C h = Inr 0"
      by (rule zero)
    with r p show False
      by simp
  qed
  show ?thesis
    using zero mature by blast
qed

theorem offspring_only_from_mature_females_witness:
  "get_todays_offspring_proportion example_collaborators (example_cohort\<lparr>sex := SEX_MALE\<rparr>)
     = Inr 0 \<and>
   get_todays_offspring_proportion example_collaborators (example_cohort\<lparr>age_days := 100\<rparr>)
     = Inr 0 \<and>
   get_todays_offspring_proportion example_collaborators example_cohort = Inr (1 / 100) \<and>
   sex example_cohort = SEX_FEMALE \<and>
   maturity_age_sex (hft example_cohort) \<le> get_age_years example_cohort"
proof -
  have male: "sex (example_cohort\<lparr>sex := SEX_MALE\<rparr>) = SEX_MALE"
    by simp
  have young: "get_age_years (example_cohort\<lparr>age_days := 100\<rparr>)
      < maturity_age_sex (hft (example_cohort\<lparr>age_days := 100\<rparr>))"
    by (simp add: get_age_years_def example_cohort_def example_hft_def)
  have val: "get_todays_offspring_proportion example_collaborators example_cohort
      = Inr (1 / 100)"
    by (simp add: get_todays_offspring_proportion_def get_age_years_def and_then_def
        get_average_def get_today_def example_cohort_def example_hft_def
        example_collaborators_def)
  show ?thesis
    using offspring_only_from_mature_females
        [of "example_cohort\<lparr>sex := SEX_MALE\<rparr>" example_collaborators 1]
      offspring_only_from_mature_females
        [of "example_cohort\<lparr>age_days := 100\<rparr>" example_collaborators 1]
      offspring_only_from_mature_females [of example_cohort example_collaborators "1 / 100"]
      male young val
    by simp
qed

text \<open>
  The draft of modules/herbiv\_herbivore.cpp tests the age the other way
  round: it returns \<open>0\<close> for every female that has reached
  \<open>maturity_age_sex\<close> and asks the reproduction model for a younger one.
\<close>

lemma draft_offspring_age_test_inverted:
  "(sex h = SEX_FEMALE \<and> maturity_age_sex (hft h) \<le> get_age_years h \<longrightarrow>
      get_todays_offspring_proportion_draft R h = Inr 0) \<and>
   (sex h = SEX_FEMALE \<and> get_age_years h < maturity_age_sex (hft h) \<and>
    reproduction_model (hft h) = RM_ILLIUS_OCONNOR_2000 \<and>
    R (breeding_season_start (hft h)) (breeding_season_length (hft h))
      (reproduction_max (hft h)) = Inr model \<and>
    get_today h = Inr d \<and> get_max_fatmass h = Inr mf \<longrightarrow>
      get_todays_offspring_proportion_draft R h = model d (fatmass (energy_budget h) / mf))"
  by (simp add: get_todays_offspring_proportion_draft_def and_then_def)

text \<open>
  C10.  For a dead herbivore \<open>get_forage_demands\<close> returns the zero forage
  mass for every available forage, and the state of the herbivore, the
  helper for the demands of the day included, is unchanged.
\<close>

theorem dead_herbivore_demands_nothing:
  "is_dead h \<Longrightarrow> get_forage_demands C available_forage h = Inr (ForageMass 0, h)"
  by (simp add: get_forage_demands_def)

theorem dead_herbivore_demands_nothing_witness:
  "is_dead (example_cohort\<lparr>ind_per_km2 := 0\<rparr>) \<and>
   get_forage_demands example_collaborators
       \<lparr>forage_mass = ForageMass 60, get_digestibility = ForageMass (1 / 2),
        forage_fpc = ForageMass 1\<rparr>
       (example_cohort\<lparr>ind_per_km2 := 0\<rparr>)
     = Inr (ForageMass 0, example_cohort\<lparr>ind_per_km2 := 0\<rparr>)"
proof -
  have dead: "is_dead (example_cohort\<lparr>ind_per_km2 := 0\<rparr>)"
    by (simp add: is_dead_def example_cohort_def example_hft_def)
  show ?thesis
    using dead dead_herbivore_demands_nothing [OF dead] by simp
qed

lemma eat_zero_density:
  "get_ind_per_km2 h = 0 \<Longrightarrow>
     eat C kg_per_km2 digestibility N_kg_per_km2 h =
       (if kg_per_km2 = ForageMass 0 then Inl (Logic_error, h) else Inl (Assertion_failed, h))"
  by (simp add: eat_def)

text \<open>
  C4.  \<open>eat\<close> on a herbivore without individuals when forage is offered: the
  guard of the logic error also asks for the offered forage to be zero, so
  the call passes it and stops at the assertion that the density is not
  zero.  With no forage offered the logic error is thrown.
\<close>

theorem eat_without_individuals:
  "eat example_collaborators ((ForageMass 0)(Grass := 1)) (ForageMass (1 / 2)) (ForageMass 0)
       (example_cohort\<lparr>ind_per_km2 := 0\<rparr>)
     = Inl (Assertion_failed, example_cohort\<lparr>ind_per_km2 := 0\<rparr>) \<and>
   eat example_collaborators (ForageMass 0) (ForageMass (1 / 2)) (ForageMass 0)
       (example_cohort\<lparr>ind_per_km2 := 0\<rparr>)
     = Inl (Logic_error, example_cohort\<lparr>ind_per_km2 := 0\<rparr>)"
  by (simp add: eat_def get_ind_per_km2_def ForageMass_eq_zero_iff)

lemma distribute_herbivores_unchanged:
  "distribute_herbivores available herbivores forage_distribution = forage_distribution"
  by (induction herbivores) simp_all

lemma distribute_populations_unchanged:
  "distribute_populations available populations forage_distribution = forage_distribution"
  by (induction populations arbitrary: forage_distribution)
    (simp_all add: distribute_herbivores_unchanged)

lemma DistributeForageEqually_spec_sums:
  assumes nonneg: "\<forall>d\<in>set demands. 0 \<le> d ft" and avail: "0 \<le> available ft"
  shows "(\<Sum>a\<leftarrow>DistributeForageEqually_spec available demands. a ft)
           = min (available ft) (\<Sum>d\<leftarrow>demands. d ft)"
    and "\<forall>i<length demands. (DistributeForageEqually_spec available demands ! i) ft \<le> (demands ! i) ft"
    and "(\<Sum>a\<leftarrow>DistributeForageEqually_spec available demands. a ft) \<le> available ft"
proof -
  let ?D = "\<Sum>d\<leftarrow>demands. d ft"
  let ?A = "available ft"
  show sum: "(\<Sum>a\<leftarrow>DistributeForageEqually_spec available demands. a ft) = min ?A ?D"
  proof (cases "?D \<le> ?A")
    case True
    then show ?thesis
      by (simp add: DistributeForageEqually_spec_def comp_def)
  next
    case False
    then have pos: "?D \<noteq> 0"
      using avail by linarith
    have "(\<Sum>a\<leftarrow>DistributeForageEqually_spec available demands. a ft)
        = (\<Sum>d\<leftarrow>demands. d ft * (?A / ?D))"
      using False by (simp add: DistributeForageEqually_spec_def comp_def)
    also have "\<dots> = ?D * (?A / ?D)"
      by (rule sum_list_mult_const)
    also have "\<dots> = ?A"
      using pos by simp
    finally show ?thesis
      using False by simp
  qed
  show "\<forall>i<length demands. (DistributeForageEqually_spec available demands ! i) ft \<le> (demands ! i) ft"
  proof (intro allI impI)
    fix i assume i: "i < length demands"
    then have d: "0 \<le> (demands ! i) ft"
      using nonneg by simp
    show "(DistributeForageEqually_spec available demands ! i) ft \<le> (demands ! i) ft"
    proof (cases "?D \<le> ?A")
      case True
      then show ?thesis
        using i by (simp add: DistributeForageEqually_spec_def)
    next
      case False
      then have "0 < ?D" "?A / ?D \<le> 1"
        using avail by (simp_all add: divide_le_eq)
      then have "(demands ! i) ft * (?A / ?D) \<le> (demands ! i) ft * 1"
        using d by (intro mult_left_mono) simp_all
      then show ?thesis
        using i False by (simp add: DistributeForageEqually_spec_def)
    qed
  qed
  show "(\<Sum>a\<leftarrow>DistributeForageEqually_spec available demands. a ft) \<le> ?A"
    using sum by simp
qed

text \<open>
  C6.  \<open>DistributeForageEqually\<close> leaves the forage distribution and the
  forage sum of its caller as they are: for two cohorts and 60 kg of grass
  available neither cohort gets a portion, whatever the demands.  The
  algorithm of the specification gives 30 kg to each of two cohorts that
  demand 100 kg.
\<close>

theorem distribute_forage_equally_no_portions:
  "DistributeForageEqually
       \<lparr>forage_mass = (ForageMass 0)(Grass := 60), get_digestibility = ForageMass (1 / 2),
        forage_fpc = ForageMass 1\<rparr>
       [[example_cohort, example_cohort\<lparr>sex := SEX_MALE\<rparr>]] Map.empty (ForageMass 0)
     = (Map.empty, ForageMass 0) \<and>
   map (\<lambda>a. a Grass)
       (DistributeForageEqually_spec ((ForageMass 0)(Grass := 60))
          [(ForageMass 0)(Grass := 100), (ForageMass 0)(Grass := 100)])
     = [30, 30]"
  by (simp add: DistributeForageEqually_def distribute_populations_unchanged
      DistributeForageEqually_spec_def ForageMass_def)

text \<open>
  C9, as amended.  For two cohorts of the same age, sex and functional type
  with non-negative densities that are not both zero, \<open>merge\<close> sets the
  density of the receiving cohort to the sum of both and the density of the
  other to zero, so the total density is the same before and after, and
  every variable of the energy budget becomes the mean of both weighted by
  the densities.  If both densities are zero, \<open>merge\<close> throws an
  invalid-argument error, the weights of the mean having the sum zero, and
  both cohorts are unchanged.  For cohorts that differ in age, sex or
  functional type it throws an invalid-argument error and both are unchanged.
\<close>

theorem cohort_merge_nonzero_density:
  "(is_same_age this other \<and> sex this = sex other \<and> hft this = hft other \<and>
    0 \<le> ind_per_km2 this \<and> 0 \<le> ind_per_km2 other \<and>
    0 < ind_per_km2 this + ind_per_km2 other \<longrightarrow>
      (let d1 = ind_per_km2 this; d2 = ind_per_km2 other;
           b1 = energy_budget this; b2 = energy_budget other;
           this' = this\<lparr>energy_budget :=
                      \<lparr>fatmass = (fatmass b1 * d1 + fatmass b2 * d2) / (d1 + d2),
                       max_fatmass = (max_fatmass b1 * d1 + max_fatmass b2 * d2) / (d1 + d2),
                       energy_needs = (energy_needs b1 * d1 + energy_needs b2 * d2) / (d1 + d2),
                       max_anabolism_per_day =
                         (max_anabolism_per_day b1 * d1 + max_anabolism_per_day b2 * d2)
                           / (d1 + d2)\<rparr>,
                    ind_per_km2 := d1 + d2\<rparr>;
           other' = other\<lparr>ind_per_km2 := 0\<rparr>
       in merge this other = Inr (this', other') \<and>
          ind_per_km2 this' + ind_per_km2 other' = d1 + d2)) \<and>
   (is_same_age this other \<and> sex this = sex other \<and> hft this = hft other \<and>
    ind_per_km2 this = 0 \<and> ind_per_km2 other = 0 \<longrightarrow>
      merge this other = Inl (Invalid_argument, this, other)) \<and>
   (\<not> (is_same_age this other \<and> sex this = sex other \<and> hft this = hft other) \<longrightarrow>
      merge this other = Inl (Invalid_argument, this, other))"
proof -
  have budget: "FatmassEnergyBudget_merge b1 b2 d1 d2 =
        Inr \<lparr>fatmass = (fatmass b1 * d1 + fatmass b2 * d2) / (d1 + d2),
             max_fatmass = (max_fatmass b1 * d1 + max_fatmass b2 * d2) / (d1 + d2),
             energy_needs = (energy_needs b1 * d1 + energy_needs b2 * d2) / (d1 + d2),
             max_anabolism_per_day =
               (max_anabolism_per_day b1 * d1 + max_anabolism_per_day b2 * d2) / (d1 + d2)\<rparr>"
    if "0 \<le> d1" "0 \<le> d2" "0 < d1 + d2" for b1 b2 d1 d2
    using that by (simp add: FatmassEnergyBudget_merge_def average_def and_then_def)
  have zero: "FatmassEnergyBudget_merge b1 b2 0 0 = Inl Invalid_argument" for b1 b2
    by (simp add: FatmassEnergyBudget_merge_def average_def and_then_def)
  have merged: "let d1 = ind_per_km2 this; d2 = ind_per_km2 other;
           b1 = energy_budget this; b2 = energy_budget other;
           this' = this\<lparr>energy_budget :=
                      \<lparr>fatmass = (fatmass b1 * d1 + fatmass b2 * d2) / (d1 + d2),
                       max_fatmass = (max_fatmass b1 * d1 + max_fatmass b2 * d2) / (d1 + d2),
                       energy_needs = (energy_needs b1 * d1 + energy_needs b2 * d2) / (d1 + d2),
                       max_anabolism_per_day =
                         (max_anabolism_per_day b1 * d1 + max_anabolism_per_day b2 * d2)
                           / (d1 + d2)\<rparr>,
                    ind_per_km2 := d1 + d2\<rparr>;
           other' = other\<lparr>ind_per_km2 := 0\<rparr>
       in merge this other = Inr (this', other') \<and>
          ind_per_km2 this' + ind_per_km2 other' = d1 + d2"
    if "is_same_age this other" "sex this = sex other" "hft this = hft other"
      "0 \<le> ind_per_km2 this" "0 \<le> ind_per_km2 other"
      "0 < ind_per_km2 this + ind_per_km2 other"
    using that by (simp add: merge_def get_ind_per_km2_def budget Let_def)
  have empty: "merge this other = Inl (Invalid_argument, this, other)"
    if "is_same_age this other" "sex this = sex other" "hft this = hft other"
      "ind_per_km2 this = 0" "ind_per_km2 other = 0"
    using that by (simp add: merge_def get_ind_per_km2_def zero)
  have differ: "merge this other = Inl (Invalid_argument, this, other)"
    if "\<not> (is_same_age this other \<and> sex this = sex other \<and> hft this = hft other)"
    using that by (auto simp: merge_def)
  show ?thesis
    using merged empty differ by blast
qed



theorem cohort_merge_nonzero_density_witness:
  "merge (example_cohort\<lparr>ind_per_km2 := 1\<rparr>) (example_cohort_lean\<lparr>ind_per_km2 := 3\<rparr>)
     = Inr (example_cohort
              \<lparr>energy_budget := \<lparr>fatmass = 9, max_fatmass = 15, energy_needs = 4,
                                 max_anabolism_per_day = 4\<rparr>,
               ind_per_km2 := 4\<rparr>,
            example_cohort_lean\<lparr>ind_per_km2 := 0\<rparr>) \<and>
   merge (example_cohort\<lparr>ind_per_km2 := 0\<rparr>) (example_cohort_lean\<lparr>ind_per_km2 := 0\<rparr>)
     = Inl (Invalid_argument, example_cohort\<lparr>ind_per_km2 := 0\<rparr>,
            example_cohort_lean\<lparr>ind_per_km2 := 0\<rparr>) \<and>
   merge example_cohort (example_cohort\<lparr>sex := SEX_MALE\<rparr>)
     = Inl (Invalid_argument, example_cohort, example_cohort\<lparr>sex := SEX_MALE\<rparr>)"
proof -
  let ?a = "example_cohort\<lparr>ind_per_km2 := 1\<rparr>"
  let ?b = "example_cohort_lean\<lparr>ind_per_km2 := 3\<rparr>"
  let ?az = "example_cohort\<lparr>ind_per_km2 := 0\<rparr>"
  let ?bz = "example_cohort_lean\<lparr>ind_per_km2 := 0\<rparr>"
  let ?m = "example_cohort\<lparr>sex := SEX_MALE\<rparr>"
  have pre: "is_same_age ?a ?b \<and> sex ?a = sex ?b \<and> hft ?a = hft ?b \<and>
      0 \<le> ind_per_km2 ?a \<and> 0 \<le> ind_per_km2 ?b \<and> 0 < ind_per_km2 ?a + ind_per_km2 ?b"
    by (simp add: is_same_age_def example_cohort_lean_def)
  have prez: "is_same_age ?az ?bz \<and> sex ?az = sex ?bz \<and> hft ?az = hft ?bz \<and>
      ind_per_km2 ?az = 0 \<and> ind_per_km2 ?bz = 0"
    by (simp add: is_same_age_def example_cohort_lean_def)
  have differ: "\<not> (is_same_age example_cohort ?m \<and> sex example_cohort = sex ?m
      \<and> hft example_cohort = hft ?m)"
    by (simp add: example_cohort_def)
  from cohort_merge_nonzero_density [of ?a ?b] pre
  have "let d1 = ind_per_km2 ?a; d2 = ind_per_km2 ?b;
           b1 = energy_budget ?a; b2 = energy_budget ?b;
           this' = ?a\<lparr>energy_budget :=
                      \<lparr>fatmass = (fatmass b1 * d1 + fatmass b2 * d2) / (d1 + d2),
                       max_fatmass = (max_fatmass b1 * d1 + max_fatmass b2 * d2) / (d1 + d2),
                       energy_needs = (energy_needs b1 * d1 + energy_needs b2 * d2) / (d1 + d2),
                       max_anabolism_per_day =
                         (max_anabolism_per_day b1 * d1 + max_anabolism_per_day b2 * d2)
                           / (d1 + d2)\<rparr>,
                    ind_per_km2 := d1 + d2\<rparr>;
           other' = ?b\<lparr>ind_per_km2 := 0\<rparr>
       in merge ?a ?b = Inr (this', other') \<and>
          ind_per_km2 this' + ind_per_km2 other' = d1 + d2"
    by blast
  then have merged: "merge ?a ?b
      = Inr (example_cohort
              \<lparr>energy_budget := \<lparr>fatmass = 9, max_fatmass = 15, energy_needs = 4,
                                 max_anabolism_per_day = 4\<rparr>,
               ind_per_km2 := 4\<rparr>, ?bz)"
    by (simp add: Let_def example_cohort_def example_cohort_lean_def)
  from cohort_merge_nonzero_density [of ?az ?bz] prez
  have empty: "merge ?az ?bz = Inl (Invalid_argument, ?az, ?bz)"
    by blast
  from cohort_merge_nonzero_density [of example_cohort ?m] differ
  have "merge example_cohort ?m = Inl (Invalid_argument, example_cohort, ?m)"
    by blast
  with merged empty show ?thesis
    by blast
qed

text \<open>
  C9 as stated fails for two cohorts of the same age, sex and functional
  type whose densities are both zero: \<open>merge\<close> throws and sets no density.
\<close>

theorem cohort_merge_zero_density_counterexample:
  "is_same_age (example_cohort\<lparr>ind_per_km2 := 0\<rparr>) (example_cohort_lean\<lparr>ind_per_km2 := 0\<rparr>) \<and>
   sex (example_cohort\<lparr>ind_per_km2 := 0\<rparr>) = sex (example_cohort_lean\<lparr>ind_per_km2 := 0\<rparr>) \<and>
   hft (example_cohort\<lparr>ind_per_km2 := 0\<rparr>) = hft (example_cohort_lean\<lparr>ind_per_km2 := 0\<rparr>) \<and>
   merge (example_cohort\<lparr>ind_per_km2 := 0\<rparr>) (example_cohort_lean\<lparr>ind_per_km2 := 0\<rparr>)
     = Inl (Invalid_argument, example_cohort\<lparr>ind_per_km2 := 0\<rparr>,
            example_cohort_lean\<lparr>ind_per_km2 := 0\<rparr>)"
  by (simp add: merge_def is_same_age_def example_cohort_lean_def get_ind_per_km2_def
      FatmassEnergyBudget_merge_def average_def and_then_def)

text \<open>
  For a positive interval the counter stays at or below the interval once it
  is there, as it is after the constructor; so the test for equality in the
  loop fires as soon as the counter is no longer below the interval.
\<close>

lemma simulate_units_counter_bounded:
  "0 < herbivore_establish_interval p \<Longrightarrow> days \<le> herbivore_establish_interval p \<Longrightarrow>
   simulate_units SD p day_of_year do_herbivores us days = Inr (us', days') \<Longrightarrow>
   days' \<le> herbivore_establish_interval p"
proof (induction us arbitrary: days us')
  case Nil
  then show ?case by simp
next
  case (Cons u us)
  let ?next = "(if days = herbivore_establish_interval p \<and> herbivore_establish_interval p > 0
                then 0 else days) + 1"
  from Cons.prems(3) obtain rest where
    rest: "simulate_units SD p day_of_year do_herbivores us ?next = Inr (rest, days')"
    by (auto simp: Let_def split: sum.splits if_splits)
  have "?next \<le> herbivore_establish_interval p"
    using Cons.prems(1,2) by auto
  from Cons.IH [OF Cons.prems(1) this rest] show ?case .
qed

lemma simulate_day_counter_bounded:
  "0 < herbivore_establish_interval (params W) \<Longrightarrow>
   days_since_last_establishment W \<le> herbivore_establish_interval (params W) \<Longrightarrow>
   simulate_day SD day_of_year do_herbivores W = Inr W' \<Longrightarrow>
   params W' = params W \<and>
   days_since_last_establishment W' \<le> herbivore_establish_interval (params W')"
  by (auto simp: simulate_day_def split: if_splits sum.splits prod.splits
      dest: simulate_units_counter_bounded)

text \<open>
  The counter after the loop depends on the parameters, the counter before
  the loop and the number of simulation units only: not on what
  \<^verbatim>\<open>SimulateDay\<close> does, nor on the flags of the units.
\<close>

lemma simulate_units_counter_independent:
  "length us = length us' \<Longrightarrow>
   simulate_units SD p day_of_year do_herbivores us days = Inr r \<Longrightarrow>
   simulate_units SD' p day_of_year' do_herbivores' us' days = Inr r' \<Longrightarrow>
   snd r = snd r'"
proof (induction us arbitrary: us' days r r')
  case Nil
  then show ?case by auto
next
  case (Cons u us)
  from Cons.prems(1) obtain u' rest' where us': "us' = u' # rest'" and
    len: "length us = length rest'"
    by (cases us') auto
  let ?next = "(if days = herbivore_establish_interval p \<and> herbivore_establish_interval p > 0
                then 0 else days) + 1"
  from Cons.prems(2) obtain q where
    q: "simulate_units SD p day_of_year do_herbivores us ?next = Inr q" and rq: "snd r = snd q"
    by (auto simp: Let_def split: sum.splits if_splits)
  from Cons.prems(3) us' obtain q' where
    q': "simulate_units SD' p day_of_year' do_herbivores' rest' ?next = Inr q'" and
    rq': "snd r' = snd q'"
    by (auto simp: Let_def split: sum.splits if_splits)
  from Cons.IH [OF len q q'] rq rq' show ?case
    by simp
qed

text \<open>
  C7.  The world of the example, with an establishment interval of 10 days
  and two simulation units, simulated for the days 0 to 5.  The counter
  \<open>days_since_last_establishment\<close> advances once for each simulation unit
  in each call, so it reaches the interval again on day 5: the first unit is
  asked to establish on day 0 and on day 5, the second unit on day 0 only.
  The counter and the request of day 5 do not depend on the flags of the
  units; the days without a request are those of units that keep their flag.
\<close>

theorem establishment_two_simulation_units:
  "simulate_days example_SimulateDay [0, 1, 2, 3, 4, 5] example_world =
     Inr \<lparr>params = \<lparr>herbivore_establish_interval = 10\<rparr>,
          days_since_last_establishment = 2,
          sim_units =
            [\<lparr>is_initial_establishment_done = True,
              unit_state = [(0, True), (1, False), (2, False), (3, False), (4, False),
                            (5, True)]\<rparr>,
             \<lparr>is_initial_establishment_done = True,
              unit_state = [(0, True), (1, False), (2, False), (3, False), (4, False),
                            (5, False)]\<rparr>]\<rparr>"
  by (simp add: example_world_def World_new_def create_simulation_unit_def simulate_day_def
      example_SimulateDay_def Let_def)


section \<open>Properties of the mortality of the day\<close>

lemma get_max_fatmass_cong:
  "hft h1 = hft h2 \<Longrightarrow> sex h1 = sex h2 \<Longrightarrow> age_days h1 = age_days h2 \<Longrightarrow>
   get_max_fatmass h1 = get_max_fatmass h2"
  by (simp add: get_max_fatmass_def get_potential_bodymass_def get_bodymass_adult_def
      get_age_years_def Let_def cong: if_cong)

lemma get_bodyfat_cong:
  "hft h1 = hft h2 \<Longrightarrow> sex h1 = sex h2 \<Longrightarrow> age_days h1 = age_days h2 \<Longrightarrow>
   energy_budget h1 = energy_budget h2 \<Longrightarrow> get_bodyfat h1 = get_bodyfat h2"
  by (simp add: get_bodyfat_def get_bodymass_def get_lean_bodymass_def
      get_potential_bodymass_def get_bodymass_adult_def get_age_years_def Let_def cong: if_cong)

lemma mortality_rate_of_cong:
  assumes "hft h1 = hft h2" "sex h1 = sex h2" "age_days h1 = age_days h2"
    "energy_budget h1 = energy_budget h2"
  shows "mortality_rate_of C f h1 = mortality_rate_of C f h2"
proof (cases f)
  case MF_BACKGROUND
  then show ?thesis using assms by (simp add: mortality_rate_of_def)
next
  case MF_LIFESPAN
  then show ?thesis using assms by (simp add: mortality_rate_of_def)
next
  case MF_STARVATION_ILLIUS_OCONNOR_2000
  then show ?thesis
    using assms get_max_fatmass_cong [of h1 h2]
    by (simp add: mortality_rate_of_def get_fatmass_def get_age_years_def)
next
  case MF_STARVATION_THRESHOLD
  then show ?thesis
    using assms get_bodyfat_cong [of h1 h2]
    by (simp add: mortality_rate_of_def)
qed

lemma mortality_factor_today_rate:
  assumes "mortality_factor_today C f (s, h) = Inr (s', h')"
  shows "\<exists>r. mortality_rate_of C f h = Inr r \<and> s' = s + r \<and> output_mortality h' f = r"
    and "hft h' = hft h \<and> sex h' = sex h \<and> age_days h' = age_days h"
    and "f \<noteq> MF_STARVATION_ILLIUS_OCONNOR_2000 \<Longrightarrow> energy_budget h' = energy_budget h"
    and "\<forall>g. g \<noteq> f \<longrightarrow> output_mortality h' g = output_mortality h g"
  using assms
  by (cases f;
      auto simp: mortality_factor_today_def mortality_rate_of_def set_output_mortality_def
        output_mortality_def and_then_def Let_def
      split: sum.splits if_splits prod.splits)+


lemma mortality_factors_loop_rates:
  "distinct fs \<Longrightarrow> mortality_factors_loop C fs (s, h) = Inr (s', h') \<Longrightarrow>
     (hft h' = hft h \<and> sex h' = sex h \<and> age_days h' = age_days h) \<and>
     (MF_STARVATION_ILLIUS_OCONNOR_2000 \<notin> set fs \<longrightarrow> energy_budget h' = energy_budget h) \<and>
     (\<forall>g. g \<notin> set fs \<longrightarrow> output_mortality h' g = output_mortality h g) \<and>
     (\<forall>f\<in>set fs. \<exists>r. mortality_rate_of C f (herbivore_when_factor_runs fs h h' f) = Inr r
         \<and> output_mortality h' f = r) \<and>
     s' = s + (\<Sum>f\<leftarrow>fs. rate_value
                  (mortality_rate_of C f (herbivore_when_factor_runs fs h h' f)))"
proof (induction fs arbitrary: s h)
  case Nil
  then show ?case by simp
next
  case (Cons f0 rest)
  let ?I = MF_STARVATION_ILLIUS_OCONNOR_2000
  from Cons.prems(2) obtain s1 h1 where
    step: "mortality_factor_today C f0 (s, h) = Inr (s1, h1)" and
    loop: "mortality_factors_loop C rest (s1, h1) = Inr (s', h')"
    by (auto split: sum.splits)
  from Cons.prems(1) have d: "distinct rest" and nf: "f0 \<notin> set rest"
    by simp_all
  from mortality_factor_today_rate(1) [OF step] obtain r0 where
    r0: "mortality_rate_of C f0 h = Inr r0" "s1 = s + r0" "output_mortality h1 f0 = r0"
    by blast
  note core1 = mortality_factor_today_rate(2) [OF step]
  note budget1 = mortality_factor_today_rate(3) [OF step]
  note out1 = mortality_factor_today_rate(4) [OF step]
  note IH = Cons.IH [OF d loop]
  from IH have core: "hft h' = hft h1 \<and> sex h' = sex h1 \<and> age_days h' = age_days h1"
    and budget: "?I \<notin> set rest \<longrightarrow> energy_budget h' = energy_budget h1"
    and out: "\<forall>g. g \<notin> set rest \<longrightarrow> output_mortality h' g = output_mortality h1 g"
    and rates: "\<forall>f\<in>set rest. \<exists>r.
        mortality_rate_of C f (herbivore_when_factor_runs rest h1 h' f) = Inr r
        \<and> output_mortality h' f = r"
    and total: "s' = s1 + (\<Sum>f\<leftarrow>rest. rate_value
        (mortality_rate_of C f (herbivore_when_factor_runs rest h1 h' f)))"
    by blast+
  have same: "mortality_rate_of C f (herbivore_when_factor_runs (f0 # rest) h h' f)
      = mortality_rate_of C f (herbivore_when_factor_runs rest h1 h' f)"
    if f: "f \<in> set rest" for f
  proof -
    from f nf have ne: "f0 \<noteq> f"
      by auto
    show ?thesis
    proof (cases "?I \<in> set (takeWhile (\<lambda>g. g \<noteq> f) rest)")
      case True
      then show ?thesis
        using ne by (simp add: herbivore_when_factor_runs_def)
    next
      case later: False
      show ?thesis
      proof (cases "f0 = ?I")
        case True
        with nf have "?I \<notin> set rest"
          by simp
        with budget have "energy_budget h' = energy_budget h1"
          by simp
        with core have "mortality_rate_of C f h' = mortality_rate_of C f h1"
          by (intro mortality_rate_of_cong) simp_all
        then show ?thesis
          using ne later True by (simp add: herbivore_when_factor_runs_def)
      next
        case False
        with budget1 have "energy_budget h1 = energy_budget h"
          by simp
        with core1 have "mortality_rate_of C f h = mortality_rate_of C f h1"
          by (intro mortality_rate_of_cong) simp_all
        then show ?thesis
          using ne later False by (simp add: herbivore_when_factor_runs_def)
      qed
    qed
  qed
  have head: "herbivore_when_factor_runs (f0 # rest) h h' f0 = h"
    by (simp add: herbivore_when_factor_runs_def)
  have keep: "output_mortality h' f0 = r0"
    using out nf r0 by simp
  have sum_same: "(\<Sum>f\<leftarrow>rest. rate_value
        (mortality_rate_of C f (herbivore_when_factor_runs (f0 # rest) h h' f)))
      = (\<Sum>f\<leftarrow>rest. rate_value
        (mortality_rate_of C f (herbivore_when_factor_runs rest h1 h' f)))"
    by (rule arg_cong [where f = sum_list], rule map_cong) (simp_all add: same)
  have c1: "hft h' = hft h \<and> sex h' = sex h \<and> age_days h' = age_days h"
    using core core1 by simp
  have c2: "?I \<notin> set (f0 # rest) \<longrightarrow> energy_budget h' = energy_budget h"
    using budget budget1 by auto
  have c3: "\<forall>g. g \<notin> set (f0 # rest) \<longrightarrow> output_mortality h' g = output_mortality h g"
    using out out1 by auto
  have c4: "\<forall>f\<in>set (f0 # rest). \<exists>r.
      mortality_rate_of C f (herbivore_when_factor_runs (f0 # rest) h h' f) = Inr r
      \<and> output_mortality h' f = r"
  proof
    fix f assume "f \<in> set (f0 # rest)"
    then consider "f = f0" | "f \<in> set rest"
      by auto
    then show "\<exists>r. mortality_rate_of C f (herbivore_when_factor_runs (f0 # rest) h h' f) = Inr r
      \<and> output_mortality h' f = r"
    proof cases
      case 1
      then show ?thesis
        using head r0 keep by simp
    next
      case 2
      then show ?thesis
        using rates same by simp
    qed
  qed
  have c5: "s' = s + (\<Sum>f\<leftarrow>f0 # rest. rate_value
      (mortality_rate_of C f (herbivore_when_factor_runs (f0 # rest) h h' f)))"
    using total r0 head sum_same by (simp add: rate_value_def)
  from c1 c2 c3 c4 c5 show ?case
    by blast
qed

text \<open>
  C2.  When \<open>apply_mortality_factors_today\<close> reaches its call of
  \<open>apply_mortality\<close>, the model of every selected mortality factor has
  returned a rate, which today's output records, and the mortality \<open>m\<close> that
  is passed is the sum of these rates clamped from above to \<open>1\<close>; so \<open>m\<close> is
  at most \<open>1\<close> for every selection of factors.
\<close>

theorem todays_mortality_is_clamped_sum:
  "distinct (mortality_factors (hft h)) \<Longrightarrow> todays_mortality_sum C h = Inr (m, h') \<Longrightarrow>
     (\<forall>f\<in>set (mortality_factors (hft h)). \<exists>r.
         mortality_rate_of C f (herbivore_when_factor_runs (mortality_factors (hft h)) h h' f)
           = Inr r \<and> output_mortality h' f = r) \<and>
     m = min 1 (\<Sum>f\<leftarrow>mortality_factors (hft h). rate_value
           (mortality_rate_of C f
              (herbivore_when_factor_runs (mortality_factors (hft h)) h h' f))) \<and>
     m \<le> 1 \<and>
     apply_mortality_factors_today C h = apply_mortality m h'"
proof -
  assume d: "distinct (mortality_factors (hft h))"
    and r: "todays_mortality_sum C h = Inr (m, h')"
  from r obtain s where
    loop: "mortality_factors_loop C (mortality_factors (hft h)) (0, h) = Inr (s, h')" and
    m: "m = min 1 s"
    by (auto simp: todays_mortality_sum_def split: sum.splits)
  note props = mortality_factors_loop_rates [OF d loop]
  from props have s: "s = (\<Sum>f\<leftarrow>mortality_factors (hft h). rate_value
           (mortality_rate_of C f
              (herbivore_when_factor_runs (mortality_factors (hft h)) h h' f)))"
    by simp
  from props have each: "\<forall>f\<in>set (mortality_factors (hft h)). \<exists>r.
         mortality_rate_of C f (herbivore_when_factor_runs (mortality_factors (hft h)) h h' f)
           = Inr r \<and> output_mortality h' f = r"
    by blast
  have call: "apply_mortality_factors_today C h = apply_mortality m h'"
    using r by (simp add: apply_mortality_factors_today_def)
  from m s each call show ?thesis
    by simp
qed


theorem todays_mortality_is_clamped_sum_witness:
  "distinct (mortality_factors (hft example_cohort)) \<and>
   todays_mortality_sum example_collaborators_graded example_cohort
     = Inr (11 / 20, example_cohort_graded_after) \<and>
   map (\<lambda>f. mortality_rate_of example_collaborators_graded f
            (herbivore_when_factor_runs (mortality_factors (hft example_cohort))
               example_cohort example_cohort_graded_after f))
       (mortality_factors (hft example_cohort))
     = [Inr (1 / 10), Inr 0, Inr (1 / 5), Inr (1 / 4)] \<and>
   mortality_rate_of example_collaborators_graded MF_STARVATION_THRESHOLD example_cohort
     = Inr 1 \<and>
   (11 / 20 :: real) = min 1 (\<Sum>f\<leftarrow>mortality_factors (hft example_cohort). rate_value
       (mortality_rate_of example_collaborators_graded f
          (herbivore_when_factor_runs (mortality_factors (hft example_cohort))
             example_cohort example_cohort_graded_after f))) \<and>
   todays_mortality_sum example_collaborators example_cohort
     = Inr (1, example_cohort_rates_recorded) \<and>
   map (\<lambda>f. mortality_rate_of example_collaborators f
            (herbivore_when_factor_runs (mortality_factors (hft example_cohort))
               example_cohort example_cohort_rates_recorded f))
       (mortality_factors (hft example_cohort))
     = [Inr (3 / 10), Inr (4 / 10), Inr (2 / 10), Inr (5 / 10)] \<and>
   (1 :: real) = min 1 (\<Sum>f\<leftarrow>mortality_factors (hft example_cohort). rate_value
       (mortality_rate_of example_collaborators f
          (herbivore_when_factor_runs (mortality_factors (hft example_cohort))
             example_cohort example_cohort_rates_recorded f))) \<and>
   apply_mortality_factors_today example_collaborators example_cohort
     = apply_mortality 1 example_cohort_rates_recorded \<and>
   apply_mortality 1 example_cohort_rates_recorded
     = Inr (example_cohort_rates_recorded\<lparr>ind_per_km2 := 0\<rparr>)"
proof -
  have d: "distinct (mortality_factors (hft example_cohort))"
    by (simp add: example_cohort_def example_hft_def)
  have dies: "apply_mortality 1 example_cohort_rates_recorded
      = Inr (example_cohort_rates_recorded\<lparr>ind_per_km2 := 0\<rparr>)"
    by (simp add: apply_mortality_def get_ind_per_km2_def Let_def)
  have run1: "todays_mortality_sum example_collaborators example_cohort
      = Inr (1, example_cohort_rates_recorded)"
    by (simp add: todays_mortality_sum_def mortality_factor_today_def get_max_fatmass_def
        get_bodyfat_def get_bodymass_def get_lean_bodymass_def get_potential_bodymass_def
        get_bodymass_adult_def get_fatmass_def get_age_years_def and_then_def Let_def
        example_cohort_def example_hft_def example_collaborators_def
        set_output_mortality_def example_collaborators_graded_def example_cohort_rates_recorded_def)
  have run: "todays_mortality_sum example_collaborators_graded example_cohort
      = Inr (11 / 20, example_cohort_graded_after)"
    by (simp add: todays_mortality_sum_def mortality_factor_today_def get_max_fatmass_def
        get_bodyfat_def get_bodymass_def get_lean_bodymass_def get_potential_bodymass_def
        get_bodymass_adult_def get_fatmass_def get_age_years_def and_then_def Let_def
        example_cohort_def example_hft_def example_collaborators_def
        set_output_mortality_def example_collaborators_graded_def example_cohort_graded_after_def)
  have rates: "map (\<lambda>f. mortality_rate_of example_collaborators_graded f
            (herbivore_when_factor_runs (mortality_factors (hft example_cohort))
               example_cohort example_cohort_graded_after f))
       (mortality_factors (hft example_cohort))
     = [Inr (1 / 10), Inr 0, Inr (1 / 5), Inr (1 / 4)]"
    by (simp add: mortality_rate_of_def herbivore_when_factor_runs_def todays_mortality_sum_def mortality_factor_today_def get_max_fatmass_def
        get_bodyfat_def get_bodymass_def get_lean_bodymass_def get_potential_bodymass_def
        get_bodymass_adult_def get_fatmass_def get_age_years_def and_then_def Let_def
        example_cohort_def example_hft_def example_collaborators_def
        set_output_mortality_def example_collaborators_graded_def
        example_cohort_graded_after_def)
  have before: "mortality_rate_of example_collaborators_graded MF_STARVATION_THRESHOLD
      example_cohort = Inr 1"
    by (simp add: mortality_rate_of_def todays_mortality_sum_def mortality_factor_today_def get_max_fatmass_def
        get_bodyfat_def get_bodymass_def get_lean_bodymass_def get_potential_bodymass_def
        get_bodymass_adult_def get_fatmass_def get_age_years_def and_then_def Let_def
        example_cohort_def example_hft_def example_collaborators_def
        set_output_mortality_def example_collaborators_graded_def)
  have rates1: "map (\<lambda>f. mortality_rate_of example_collaborators f
            (herbivore_when_factor_runs (mortality_factors (hft example_cohort))
               example_cohort example_cohort_rates_recorded f))
       (mortality_factors (hft example_cohort))
     = [Inr (3 / 10), Inr (4 / 10), Inr (2 / 10), Inr (5 / 10)]"
    by (simp add: mortality_rate_of_def herbivore_when_factor_runs_def todays_mortality_sum_def mortality_factor_today_def get_max_fatmass_def
        get_bodyfat_def get_bodymass_def get_lean_bodymass_def get_potential_bodymass_def
        get_bodymass_adult_def get_fatmass_def get_age_years_def and_then_def Let_def
        example_cohort_def example_hft_def example_collaborators_def
        set_output_mortality_def example_collaborators_graded_def
        example_cohort_rates_recorded_def)
  from todays_mortality_is_clamped_sum [OF d run] todays_mortality_is_clamped_sum [OF d run1]
    d run run1 rates rates1 before dies
  show ?thesis
    by blast
qed

end
